theory Spec2Isabelle
  imports Complex_Main "HOL-Library.Word" "HOL-Library.Sublist"
begin

section \<open>Python values used by \<^verbatim>\<open>main.py\<close>\<close>

text \<open>
  A Python \<^verbatim>\<open>str\<close> is a sequence of Unicode code points; it is modelled as the list of
  their numbers, so that \<^verbatim>\<open>find\<close>, \<^verbatim>\<open>rfind\<close> and slicing count what Python counts.
  \<open>ascii\<close> writes the ASCII part of a literal; the accented letters of the Spanish
  messages are given by their code point.
\<close>

type_synonym pystr = "nat list"

definition ascii :: "string \<Rightarrow> pystr" where
  "ascii s = map of_char s"

definition lbrace :: nat where
  "lbrace = 123"

definition rbrace :: nat where
  "rbrace = 125"

text \<open>
  What \<^verbatim>\<open>json.loads\<close> builds. A \<^verbatim>\<open>dict\<close> keeps its insertion order, so it is an
  association list. A \<^verbatim>\<open>float\<close> is only handed on to the caller: it is kept as its
  64 bits.
\<close>

datatype json =
    JNull
  | JBool bool
  | JInt int
  | JFloat "64 word"
  | JStr pystr
  | JList "json list"
  | JDict "(pystr \<times> json) list"

type_synonym pydict = "(pystr \<times> json) list"

text \<open>\<^verbatim>\<open>k in d\<close>\<close>

definition contains_key :: "pydict \<Rightarrow> pystr \<Rightarrow> bool" where
  "contains_key d k = (case map_of d k of None \<Rightarrow> False | Some v \<Rightarrow> True)"

text \<open>\<^verbatim>\<open>d.get(k)\<close>: \<^verbatim>\<open>None\<close> when the key is absent.\<close>

definition dict_get :: "pydict \<Rightarrow> pystr \<Rightarrow> json" where
  "dict_get d k = (case map_of d k of None \<Rightarrow> JNull | Some v \<Rightarrow> v)"

text \<open>\<^verbatim>\<open>isinstance(v, list)\<close>\<close>

fun isinstance_list :: "json \<Rightarrow> bool" where
  "isinstance_list (JList xs) = True"
| "isinstance_list v = False"

text \<open>
  \<^verbatim>\<open>s.find(c)\<close> and \<^verbatim>\<open>s.rfind(c)\<close> for a one-character \<^verbatim>\<open>c\<close>: the lowest and the
  highest index of \<^verbatim>\<open>c\<close> in \<^verbatim>\<open>s\<close>, and \<^verbatim>\<open>-1\<close> when there is none.
\<close>

fun str_find :: "pystr \<Rightarrow> nat \<Rightarrow> int" where
  "str_find [] c = - 1"
| "str_find (x # xs) c =
     (if x = c then 0
      else (let r = str_find xs c in if r = - 1 then - 1 else r + 1))"

fun str_rfind :: "pystr \<Rightarrow> nat \<Rightarrow> int" where
  "str_rfind [] c = - 1"
| "str_rfind (x # xs) c =
     (let r = str_rfind xs c
      in if r \<noteq> - 1 then r + 1 else if x = c then 0 else - 1)"

text \<open>
  The slice \<^verbatim>\<open>s[i:j]\<close>: a negative bound counts from the end, and both bounds are
  clipped to the string.
\<close>

definition py_slice :: "pystr \<Rightarrow> int \<Rightarrow> int \<Rightarrow> pystr" where
  "py_slice s i j =
     (let n = int (length s);
          lo = (if i < 0 then max (i + n) 0 else min i n);
          hi = (if j < 0 then max (j + n) 0 else min j n)
      in drop (nat lo) (take (nat hi) s))"

section \<open>Exceptions and responses\<close>

text \<open>
  An exception is its place in the class hierarchy, as far as the handlers of
  \<^verbatim>\<open>main.py\<close> tell classes apart, and the text \<^verbatim>\<open>str(e)\<close>.
  \<open>JSONDecodeError\<close> is a subclass of \<open>ValueError\<close>, which is a subclass of
  \<open>Exception\<close>; \<open>Exception\<close> stands for an instance of \<^verbatim>\<open>Exception\<close> that is no
  \<^verbatim>\<open>ValueError\<close>, and \<open>BaseException\<close> for one of \<^verbatim>\<open>BaseException\<close> that is no
  \<^verbatim>\<open>Exception\<close> (a cancelled task, an interpreter exit).
\<close>

datatype exn_class = JSONDecodeError | ValueError | Exception | BaseException

datatype exn = Exn (exn_class: exn_class) (exn_str: pystr)

fun is_JSONDecodeError :: "exn_class \<Rightarrow> bool" where
  "is_JSONDecodeError JSONDecodeError = True"
| "is_JSONDecodeError c = False"

fun is_ValueError :: "exn_class \<Rightarrow> bool" where
  "is_ValueError JSONDecodeError = True"
| "is_ValueError ValueError = True"
| "is_ValueError c = False"

fun is_Exception :: "exn_class \<Rightarrow> bool" where
  "is_Exception BaseException = False"
| "is_Exception c = True"

text \<open>
  How a handler coroutine ends: it returns a \<^verbatim>\<open>dict\<close> (\<open>Ok200\<close>, after the status
  that the route declares for a returned value), or it raises
  \<^verbatim>\<open>HTTPException(status_code, detail)\<close>, or an exception leaves it uncaught. What the
  client receives is decided after that, by the framework: see \<open>respond\<close> below.
\<close>

datatype response = Ok200 pydict | HTTPException nat pystr | Uncaught exn

section \<open>The external service, the JSON decoder and the console\<close>

record GenerationConfig =
  temperature :: rat
  max_output_tokens :: nat

record model_call =
  model_name :: pystr
  prompt :: pystr
  generation_config :: GenerationConfig

text \<open>
  Everything a handler does beyond computing its response is written to a trace: each
  call of the generative service, each string given to \<^verbatim>\<open>json.loads\<close>, each line
  printed on the server's console.
\<close>

datatype event = GenerateContent model_call | JsonLoads pystr | Print pystr

fun external_calls :: "event list \<Rightarrow> model_call list" where
  "external_calls [] = []"
| "external_calls (GenerateContent c # es) = c # external_calls es"
| "external_calls (e # es) = external_calls es"

fun json_loads_args :: "event list \<Rightarrow> pystr list" where
  "json_loads_args [] = []"
| "json_loads_args (JsonLoads s # es) = s # json_loads_args es"
| "json_loads_args (e # es) = json_loads_args es"

fun printed :: "event list \<Rightarrow> pystr list" where
  "printed [] = []"
| "printed (Print s # es) = s # printed es"
| "printed (e # es) = printed es"

text \<open>
  The surroundings of a handler. \<open>GEMINI_API_KEY\<close> is the module's global, read once
  from the environment with the default \<^verbatim>\<open>""\<close>. \<open>generate_content\<close> is the awaited
  \<^verbatim>\<open>model.generate_content_async(...)\<close> followed by \<^verbatim>\<open>response.text\<close>: the text of
  the answer, or the exception that either of them raises. \<open>json_loads\<close> is
  \<^verbatim>\<open>json.loads\<close> on a string whose first character is \<^verbatim>\<open>{\<close>, the only strings
  the handlers give it: there the decoder reads an object and returns a \<^verbatim>\<open>dict\<close>, or
  it raises. The service and the decoder are libraries, so both are parameters. Building
  the model object and its configuration, and \<^verbatim>\<open>print\<close>, are taken not to raise.
\<close>

record env =
  GEMINI_API_KEY :: pystr
  generate_content :: "model_call \<Rightarrow> exn + pystr"
  json_loads :: "pystr \<Rightarrow> exn + pydict"

record TextRequest =
  "text" :: pystr

section \<open>The prompts\<close>

text \<open>
  The two f-strings of \<^verbatim>\<open>main.py\<close>: the literal text before \<^verbatim>\<open>{request.text}\<close>,
  the text of the request, the literal text after it. Code point 10 is the line feed and 34
  the double quote.
\<close>

definition summarize_prompt_head :: pystr where
  "summarize_prompt_head =
     [10] @ ascii ''        Eres un asistente de contenido educativo dise'' @ [241] @
     ascii ''ado para ayudar a padres.'' @ [10] @
     ascii ''        Tu tarea es resumir el siguiente texto educativo de '' @
     ascii ''manera concisa y f'' @ [225] @ ascii ''cil de entender para un adulto.'' @
     [10] @ ascii ''        Adem'' @ [225] @
     ascii ''s, proporciona el mismo resumen en dos idiomas: espa'' @ [241] @
     ascii ''ol e ingl'' @ [233] @ ascii ''s.'' @ [10] @
     ascii ''        Devuelve la respuesta estrictamente en formato JSON '' @
     ascii ''con las siguientes propiedades:'' @ [10] @ ascii ''        '' @ [34] @
     ascii ''summary_es'' @ [34] @ ascii '' (el resumen en espa'' @ [241] @
     ascii ''ol) y '' @ [34] @ ascii ''summary_en'' @ [34] @
     ascii '' (el resumen en ingl'' @ [233] @ ascii ''s).'' @ [10] @
     ascii ''        Aseg'' @ [250] @
     ascii ''rate de que la respuesta sea solo el objeto JSON, sin texto '' @
     ascii ''adicional ni pre'' @ [225] @ ascii ''mbulos como '' @ [34] @ ascii ''json'' @
     [34] @ ascii '' o '' @ [34, 96, 96, 96] @ ascii ''json'' @ [34] @ ascii ''.'' @
     [10, 10] @ ascii ''        Texto a resumir:'' @ [10] @ ascii ''        '' @ [34]"

definition summarize_prompt_tail :: pystr where
  "summarize_prompt_tail =
     [34, 10] @ ascii ''        ''"

definition summarize_prompt :: "pystr \<Rightarrow> pystr" where
  "summarize_prompt t = summarize_prompt_head @ t @ summarize_prompt_tail"

definition key_points_prompt_head :: pystr where
  "key_points_prompt_head =
     [10] @ ascii ''        Eres un asistente de contenido educativo dise'' @ [241] @
     ascii ''ado para ayudar a padres.'' @ [10] @
     ascii ''        Tu tarea es extraer los 3 a 5 puntos clave o ideas p'' @
     ascii ''rincipales del siguiente texto educativo.'' @ [10] @
     ascii ''        Proporciona estos puntos clave en formato de lista, '' @
     ascii ''tanto en espa'' @ [241] @ ascii ''ol como en ingl'' @ [233] @ ascii ''s.'' @
     [10] @ ascii ''        Devuelve la respuesta estrictamente en formato JSON '' @
     ascii ''con las siguientes propiedades:'' @ [10] @ ascii ''        '' @ [34] @
     ascii ''key_points_es'' @ [34] @
     ascii '' (una lista de strings con los puntos clave en espa'' @ [241] @
     ascii ''ol) y'' @ [10] @ ascii ''        '' @ [34] @ ascii ''key_points_en'' @ [34] @
     ascii '' (una lista de strings con los puntos clave en ingl'' @ [233] @ ascii ''s).'' @
     [10] @ ascii ''        Aseg'' @ [250] @
     ascii ''rate de que la respuesta sea solo el objeto JSON, sin texto '' @
     ascii ''adicional ni pre'' @ [225] @ ascii ''mbulos como '' @ [34] @ ascii ''json'' @
     [34] @ ascii '' o '' @ [34, 96, 96, 96] @ ascii ''json'' @ [34] @ ascii ''.'' @
     [10, 10] @ ascii ''        Texto para extraer puntos clave:'' @ [10] @
     ascii ''        '' @ [34]"

definition key_points_prompt_tail :: pystr where
  "key_points_prompt_tail =
     [34, 10] @ ascii ''        ''"

definition key_points_prompt :: "pystr \<Rightarrow> pystr" where
  "key_points_prompt t = key_points_prompt_head @ t @ key_points_prompt_tail"

definition summarize_call :: "pystr \<Rightarrow> model_call" where
  "summarize_call t =
     \<lparr>model_name = ascii ''gemini-1.5-flash'',
      prompt = summarize_prompt t,
      generation_config = \<lparr>temperature = 7 / 10, max_output_tokens = 500\<rparr>\<rparr>"

definition key_points_call :: "pystr \<Rightarrow> model_call" where
  "key_points_call t =
     \<lparr>model_name = ascii ''gemini-1.5-flash'',
      prompt = key_points_prompt t,
      generation_config = \<lparr>temperature = 7 / 10, max_output_tokens = 500\<rparr>\<rparr>"

section \<open>The messages\<close>

definition not_configured_detail :: pystr where
  "not_configured_detail =
     ascii ''La clave API de Gemini no est'' @ [225] @
     ascii '' configurada. Por favor, verifica tu archivo .env o variable'' @
     ascii ''s de entorno.''"

definition summarize_malformed_detail :: pystr where
  "summarize_malformed_detail =
     ascii ''La IA no devolvi'' @ [243] @ ascii '' un formato JSON v'' @ [225] @
     ascii ''lido o esperado.''"

definition summarize_invalid_detail :: pystr where
  "summarize_invalid_detail =
     ascii ''La IA devolvi'' @ [243] @ ascii '' un JSON inv'' @ [225] @ ascii ''lido.''"

definition summarize_missing_detail :: pystr where
  "summarize_missing_detail =
     ascii ''La respuesta de la IA no contiene los res'' @ [250] @
     ascii ''menes en ambos idiomas.''"

definition summarize_internal_detail :: pystr where
  "summarize_internal_detail =
     ascii ''Error interno del servidor al procesar la solicitud.''"

definition key_points_malformed_detail :: pystr where
  "key_points_malformed_detail =
     ascii ''La IA no devolvi'' @ [243] @ ascii '' un formato JSON v'' @ [225] @
     ascii ''lido o esperado para los puntos clave.''"

definition key_points_invalid_detail :: pystr where
  "key_points_invalid_detail =
     ascii ''La IA devolvi'' @ [243] @ ascii '' un JSON inv'' @ [225] @
     ascii ''lido para puntos clave.''"

definition key_points_missing_detail :: pystr where
  "key_points_missing_detail =
     ascii ''La respuesta de la IA no contiene los puntos clave en format'' @
     ascii ''o de lista en ambos idiomas.''"

definition key_points_internal_detail :: pystr where
  "key_points_internal_detail =
     ascii ''Error interno del servidor al procesar la solicitud de punto'' @
     ascii ''s clave.''"

section \<open>\<^verbatim>\<open>POST /summarize\<close>\<close>

text \<open>The body of the \<^verbatim>\<open>try\<close> block: the value returned or the exception raised.\<close>

definition summarize_try :: "env \<Rightarrow> TextRequest \<Rightarrow> event list \<Rightarrow> (exn + pydict) \<times> event list" where
  "summarize_try env request tr =
     (if GEMINI_API_KEY env = [] then (Inl (Exn ValueError not_configured_detail), tr)
      else
        let call = summarize_call (text request);
            tr1 = tr @ [GenerateContent call]
        in case generate_content env call of
             Inl e \<Rightarrow> (Inl e, tr1)
           | Inr generated_json_text \<Rightarrow>
               let start_index = str_find generated_json_text lbrace;
                   end_index = str_rfind generated_json_text rbrace
               in if start_index \<noteq> - 1 \<and> end_index \<noteq> - 1 \<and> end_index > start_index then
                    let cleaned_json_text =
                          py_slice generated_json_text start_index (end_index + 1);
                        tr2 = tr1 @ [JsonLoads cleaned_json_text]
                    in case json_loads env cleaned_json_text of
                         Inl e \<Rightarrow>
                           if is_JSONDecodeError (exn_class e) then
                             (Inl (Exn ValueError summarize_invalid_detail),
                              tr2 @
                              [Print (ascii ''Error al decodificar JSON de la IA: '' @ exn_str e),
                               Print (ascii ''Texto recibido de la IA: '' @ cleaned_json_text)])
                           else (Inl e, tr2)
                       | Inr summary_data \<Rightarrow>
                           if \<not> contains_key summary_data (ascii ''summary_es'') \<or>
                              \<not> contains_key summary_data (ascii ''summary_en'')
                           then (Inl (Exn ValueError summarize_missing_detail), tr2)
                           else (Inr summary_data, tr2)
                  else (Inl (Exn ValueError summarize_malformed_detail), tr1))"

text \<open>
  The handler: the \<^verbatim>\<open>try\<close> block under its two \<^verbatim>\<open>except\<close> clauses, in their order.
\<close>

definition summarize_text :: "env \<Rightarrow> TextRequest \<Rightarrow> event list \<Rightarrow> response \<times> event list" where
  "summarize_text env request tr =
     (case summarize_try env request tr of
        (Inr summary_data, tr') \<Rightarrow> (Ok200 summary_data, tr')
      | (Inl e, tr') \<Rightarrow>
          if is_ValueError (exn_class e) then (HTTPException 400 (exn_str e), tr')
          else if is_Exception (exn_class e) then
            (HTTPException 500 summarize_internal_detail,
             tr' @ [Print (ascii ''Error inesperado en summarize_text: '' @ exn_str e)])
          else (Uncaught e, tr'))"

section \<open>\<^verbatim>\<open>POST /key-points\<close>\<close>

definition get_key_points_try :: "env \<Rightarrow> TextRequest \<Rightarrow> event list \<Rightarrow> (exn + pydict) \<times> event list" where
  "get_key_points_try env request tr =
     (if GEMINI_API_KEY env = [] then (Inl (Exn ValueError not_configured_detail), tr)
      else
        let call = key_points_call (text request);
            tr1 = tr @ [GenerateContent call]
        in case generate_content env call of
             Inl e \<Rightarrow> (Inl e, tr1)
           | Inr generated_json_text \<Rightarrow>
               let start_index = str_find generated_json_text lbrace;
                   end_index = str_rfind generated_json_text rbrace
               in if start_index \<noteq> - 1 \<and> end_index \<noteq> - 1 \<and> end_index > start_index then
                    let cleaned_json_text =
                          py_slice generated_json_text start_index (end_index + 1);
                        tr2 = tr1 @ [JsonLoads cleaned_json_text]
                    in case json_loads env cleaned_json_text of
                         Inl e \<Rightarrow>
                           if is_JSONDecodeError (exn_class e) then
                             (Inl (Exn ValueError key_points_invalid_detail),
                              tr2 @
                              [Print (ascii ''Error al decodificar JSON de la IA para puntos clave: '' @
                                      exn_str e),
                               Print (ascii ''Texto recibido de la IA para puntos clave: '' @
                                      cleaned_json_text)])
                           else (Inl e, tr2)
                       | Inr key_points_data \<Rightarrow>
                           if \<not> isinstance_list (dict_get key_points_data (ascii ''key_points_es'')) \<or>
                              \<not> isinstance_list (dict_get key_points_data (ascii ''key_points_en''))
                           then (Inl (Exn ValueError key_points_missing_detail), tr2)
                           else (Inr key_points_data, tr2)
                  else (Inl (Exn ValueError key_points_malformed_detail), tr1))"

definition get_key_points :: "env \<Rightarrow> TextRequest \<Rightarrow> event list \<Rightarrow> response \<times> event list" where
  "get_key_points env request tr =
     (case get_key_points_try env request tr of
        (Inr key_points_data, tr') \<Rightarrow> (Ok200 key_points_data, tr')
      | (Inl e, tr') \<Rightarrow>
          if is_ValueError (exn_class e) then (HTTPException 400 (exn_str e), tr')
          else if is_Exception (exn_class e) then
            (HTTPException 500 key_points_internal_detail,
             tr' @ [Print (ascii ''Error inesperado en get_key_points: '' @ exn_str e)])
          else (Uncaught e, tr'))"

section \<open>The framework around a handler\<close>











section \<open>Test doubles\<close>

text \<open>
  A mocked service that answers every call with a fixed text, and a decoder that knows
  a handful of objects by their text and rejects everything else with a
  \<open>JSONDecodeError\<close>. They run the handlers on concrete inputs.
\<close>

definition summary_body :: pystr where
  "summary_body =
     [34] @ ascii ''summary_es'' @ [34] @ ascii '':'' @ [34] @ ascii ''Resumen.'' @ [34] @
     ascii '','' @ [34] @ ascii ''summary_en'' @ [34] @ ascii '':'' @ [34] @
     ascii ''Summary.'' @ [34]"

definition summary_extra_body :: pystr where
  "summary_extra_body =
     [34] @ ascii ''summary_es'' @ [34] @ ascii '':'' @ [34] @ ascii ''x'' @ [34] @
     ascii '','' @ [34] @ ascii ''summary_en'' @ [34] @ ascii '':'' @ [34] @ ascii ''y'' @
     [34] @ ascii '','' @ [34] @ ascii ''note'' @ [34] @ ascii '':1''"

definition summary_only_es_body :: pystr where
  "summary_only_es_body =
     [34] @ ascii ''summary_es'' @ [34] @ ascii '':'' @ [34] @ ascii ''x'' @ [34]"

definition key_points_body :: pystr where
  "key_points_body =
     [34] @ ascii ''key_points_es'' @ [34] @ ascii '':'' @ [91, 34] @ ascii ''a'' @ [34] @
     ascii '','' @ [34] @ ascii ''b'' @ [34] @ ascii '','' @ [34] @ ascii ''c'' @ [34, 93] @
     ascii '','' @ [34] @ ascii ''key_points_en'' @ [34] @ ascii '':'' @ [91, 34] @
     ascii ''a'' @ [34] @ ascii '','' @ [34] @ ascii ''b'' @ [34] @ ascii '','' @ [34] @
     ascii ''c'' @ [34, 93]"

definition key_points_scalar_body :: pystr where
  "key_points_scalar_body =
     [34] @ ascii ''key_points_es'' @ [34] @ ascii '':'' @ [34] @ ascii ''not a list'' @
     [34] @ ascii '','' @ [34] @ ascii ''key_points_en'' @ [34] @ ascii '':'' @ [91, 34] @
     ascii ''a'' @ [34, 93]"

definition key_points_extra_body :: pystr where
  "key_points_extra_body =
     [34] @ ascii ''key_points_es'' @ [34] @ ascii '':'' @ [91, 93] @ ascii '','' @ [34] @
     ascii ''key_points_en'' @ [34] @ ascii '':'' @ [91, 93] @ ascii '','' @ [34] @
     ascii ''note'' @ [34] @ ascii '':1''"

definition summary_obj :: pydict where
  "summary_obj =
     [(ascii ''summary_es'', JStr (ascii ''Resumen.'')),
      (ascii ''summary_en'', JStr (ascii ''Summary.''))]"

definition summary_extra_obj :: pydict where
  "summary_extra_obj =
     [(ascii ''summary_es'', JStr (ascii ''x'')),
      (ascii ''summary_en'', JStr (ascii ''y'')),
      (ascii ''note'', JInt 1)]"

definition summary_only_es_obj :: pydict where
  "summary_only_es_obj = [(ascii ''summary_es'', JStr (ascii ''x''))]"

definition key_points_obj :: pydict where
  "key_points_obj =
     [(ascii ''key_points_es'', JList [JStr (ascii ''a''), JStr (ascii ''b''), JStr (ascii ''c'')]),
      (ascii ''key_points_en'', JList [JStr (ascii ''a''), JStr (ascii ''b''), JStr (ascii ''c'')])]"

definition key_points_scalar_obj :: pydict where
  "key_points_scalar_obj =
     [(ascii ''key_points_es'', JStr (ascii ''not a list'')),
      (ascii ''key_points_en'', JList [JStr (ascii ''a'')])]"

definition key_points_extra_obj :: pydict where
  "key_points_extra_obj =
     [(ascii ''key_points_es'', JList []),
      (ascii ''key_points_en'', JList []),
      (ascii ''note'', JInt 1)]"

definition mock_json_loads :: "pystr \<Rightarrow> exn + pydict" where
  "mock_json_loads s =
     (if s = lbrace # summary_body @ [rbrace] then Inr summary_obj
      else if s = lbrace # summary_extra_body @ [rbrace] then Inr summary_extra_obj
      else if s = lbrace # summary_only_es_body @ [rbrace] then Inr summary_only_es_obj
      else if s = lbrace # key_points_body @ [rbrace] then Inr key_points_obj
      else if s = lbrace # key_points_scalar_body @ [rbrace] then Inr key_points_scalar_obj
      else if s = lbrace # key_points_extra_body @ [rbrace] then Inr key_points_extra_obj
      else Inl (Exn JSONDecodeError (ascii ''Expecting property name enclosed in double quotes'')))"

definition mock_env :: "pystr \<Rightarrow> env" where
  "mock_env raw =
     \<lparr>GEMINI_API_KEY = ascii ''test-key'',
      generate_content = (\<lambda>call. Inr raw),
      json_loads = mock_json_loads\<rparr>"

definition prose_text :: pystr where
  "prose_text = ascii ''No puedo ayudar con eso.''"

definition reversed_text :: pystr where
  "reversed_text = rbrace # ascii '' al reves '' @ [lbrace]"

definition wrapped_summary_text :: pystr where
  "wrapped_summary_text = ascii ''Claro: '' @ lbrace # summary_body @ rbrace # ascii '' Listo.''"

definition wrapped_key_points_text :: pystr where
  "wrapped_key_points_text = ascii ''Aqui: '' @ lbrace # key_points_body @ rbrace # ascii '' fin''"

definition sample_request :: TextRequest where
  "sample_request = \<lparr>text = ascii ''La fotosintesis''\<rparr>"

definition invalid_text :: pystr where
  "invalid_text = ascii ''Respuesta: '' @ lbrace # ascii ''resumen: ninguno'' @ rbrace # ascii '' fin''"

definition failing_env :: "exn \<Rightarrow> env" where
  "failing_env e =
     \<lparr>GEMINI_API_KEY = ascii ''test-key'',
      generate_content = (\<lambda>call. Inl e),
      json_loads = mock_json_loads\<rparr>"

definition unconfigured_env :: env where
  "unconfigured_env =
     \<lparr>GEMINI_API_KEY = [],
      generate_content = (\<lambda>call. Inr wrapped_summary_text),
      json_loads = mock_json_loads\<rparr>"

definition empty_request :: TextRequest where
  "empty_request = \<lparr>text = []\<rparr>"

definition other_env :: "pystr \<Rightarrow> env" where
  "other_env raw =
     \<lparr>GEMINI_API_KEY = ascii ''another-key'',
      generate_content =
        (\<lambda>call. if model_name call = ascii ''gemini-1.5-flash'' then Inr raw
                else Inl (Exn Exception (ascii ''404 model not found''))),
      json_loads = mock_json_loads\<rparr>"



definition only_es_text :: pystr where
  "only_es_text = ascii ''blah '' @ lbrace # summary_only_es_body @ rbrace # ascii '' blah''"

definition scalar_key_points_text :: pystr where
  "scalar_key_points_text = lbrace # key_points_scalar_body @ [rbrace]"












section \<open>Scanning for the braces\<close>

lemma str_find_ge: "- 1 \<le> str_find s c"
  by (induction s) (auto simp: Let_def)

lemma str_find_notin: "c \<notin> set s \<Longrightarrow> str_find s c = - 1"
  by (induction s) (auto simp: Let_def)

lemma str_find_first: "c \<notin> set pre \<Longrightarrow> str_find (pre @ c # rest) c = int (length pre)"
  by (induction pre) (auto simp: Let_def)

lemma str_find_absent_iff: "str_find s c = - 1 \<longleftrightarrow> c \<notin> set s"
proof
  assume "str_find s c = - 1"
  show "c \<notin> set s"
  proof
    assume "c \<in> set s"
    then obtain pre rest where "s = pre @ c # rest" "c \<notin> set pre"
      by (meson split_list_first)
    then have "str_find s c = int (length pre)"
      by (simp add: str_find_first)
    with \<open>str_find s c = - 1\<close> show False by simp
  qed
next
  assume "c \<notin> set s"
  then show "str_find s c = - 1" by (rule str_find_notin)
qed

lemma str_rfind_notin: "c \<notin> set s \<Longrightarrow> str_rfind s c = - 1"
  by (induction s) (auto simp: Let_def)

lemma str_rfind_last: "c \<notin> set post \<Longrightarrow> str_rfind (pre @ c # post) c = int (length pre)"
  by (induction pre) (auto simp: Let_def str_rfind_notin)

lemma str_rfind_absent_iff: "str_rfind s c = - 1 \<longleftrightarrow> c \<notin> set s"
proof
  assume "str_rfind s c = - 1"
  show "c \<notin> set s"
  proof
    assume "c \<in> set s"
    then obtain pre post where "s = pre @ c # post" "c \<notin> set post"
      by (meson split_list_last)
    then have "str_rfind s c = int (length pre)"
      by (simp add: str_rfind_last)
    with \<open>str_rfind s c = - 1\<close> show False by simp
  qed
next
  assume "c \<notin> set s"
  then show "str_rfind s c = - 1" by (rule str_rfind_notin)
qed

lemma py_slice_middle:
  "py_slice (pre @ mid @ post) (int (length pre)) (int (length pre + length mid)) = mid"
  by (simp add: py_slice_def Let_def min_def)

lemma brace_slice:
  assumes "lbrace \<notin> set pre" and "rbrace \<notin> set post"
    and "raw = pre @ lbrace # mid @ rbrace # post"
  shows "str_find raw lbrace = int (length pre)"
    and "str_rfind raw rbrace = int (length pre + length mid + 1)"
    and "py_slice raw (str_find raw lbrace) (str_rfind raw rbrace + 1) = lbrace # mid @ [rbrace]"
proof -
  show f: "str_find raw lbrace = int (length pre)"
    using assms by (simp add: str_find_first)
  have "raw = (pre @ lbrace # mid) @ rbrace # post"
    using assms by simp
  then have "str_rfind raw rbrace = int (length (pre @ lbrace # mid))"
    using assms(2) str_rfind_last by blast
  then show r: "str_rfind raw rbrace = int (length pre + length mid + 1)"
    by simp
  have "py_slice (pre @ (lbrace # mid @ [rbrace]) @ post) (int (length pre))
          (int (length pre + length (lbrace # mid @ [rbrace]))) = lbrace # mid @ [rbrace]"
    by (rule py_slice_middle)
  then show "py_slice raw (str_find raw lbrace) (str_rfind raw rbrace + 1) = lbrace # mid @ [rbrace]"
    using f r assms(3) by (simp add: add.commute)
qed

lemma brace_split:
  assumes "str_find raw lbrace \<noteq> - 1" and "str_rfind raw rbrace \<noteq> - 1"
    and "str_find raw lbrace < str_rfind raw rbrace"
  shows "\<exists>pre mid post. raw = pre @ lbrace # mid @ rbrace # post \<and>
           lbrace \<notin> set pre \<and> rbrace \<notin> set post"
proof -
  from assms(1) have "lbrace \<in> set raw" by (simp add: str_find_absent_iff)
  then obtain pre rest where 1: "raw = pre @ lbrace # rest" "lbrace \<notin> set pre"
    by (meson split_list_first)
  from assms(2) have "rbrace \<in> set raw" by (simp add: str_rfind_absent_iff)
  then obtain pre2 post where 2: "raw = pre2 @ rbrace # post" "rbrace \<notin> set post"
    by (meson split_list_last)
  have "str_find raw lbrace = int (length pre)" using 1 by (simp add: str_find_first)
  moreover have "str_rfind raw rbrace = int (length pre2)" using 2 by (simp add: str_rfind_last)
  ultimately have lt: "length pre < length pre2" using assms(3) by simp
  have "pre @ lbrace # rest = pre2 @ rbrace # post" using 1 2 by simp
  then obtain mid where "pre2 = pre @ lbrace # mid"
  proof -
    from \<open>pre @ lbrace # rest = pre2 @ rbrace # post\<close>
    obtain us where "pre = pre2 @ us \<and> us @ lbrace # rest = rbrace # post \<or>
                     pre @ us = pre2 \<and> lbrace # rest = us @ rbrace # post"
      by (auto simp: append_eq_append_conv2)
    with lt have us: "pre @ us = pre2" "lbrace # rest = us @ rbrace # post"
      by auto
    with lt have "us \<noteq> []" by auto
    with us(2) obtain mid where "us = lbrace # mid"
      by (cases us) auto
    with us(1) have "pre2 = pre @ lbrace # mid" by simp
    then show ?thesis by (rule that)
  qed
  then have "raw = pre @ lbrace # mid @ rbrace # post" using 2 by simp
  with 1 2 show ?thesis by blast
qed

lemma lbrace_neq_rbrace: "lbrace \<noteq> rbrace"
  by (simp add: lbrace_def rbrace_def)

lemma brace_fail_iff:
  "\<not> (str_find raw lbrace \<noteq> - 1 \<and> str_rfind raw rbrace \<noteq> - 1 \<and>
       str_rfind raw rbrace > str_find raw lbrace) \<longleftrightarrow>
   lbrace \<notin> set raw \<or> rbrace \<notin> set raw \<or> str_rfind raw rbrace < str_find raw lbrace"
proof (cases "lbrace \<in> set raw \<and> rbrace \<in> set raw")
  case True
  then obtain pre rest where 1: "raw = pre @ lbrace # rest" "lbrace \<notin> set pre"
    by (meson split_list_first)
  from True obtain pre2 post where 2: "raw = pre2 @ rbrace # post" "rbrace \<notin> set post"
    by (meson split_list_last)
  have f: "str_find raw lbrace = int (length pre)" using 1 by (simp add: str_find_first)
  have r: "str_rfind raw rbrace = int (length pre2)" using 2 by (simp add: str_rfind_last)
  have "length pre \<noteq> length pre2"
  proof
    assume "length pre = length pre2"
    with 1(1) 2(1) have "lbrace = rbrace" by (metis append_eq_append_conv list.inject)
    with lbrace_neq_rbrace show False by simp
  qed
  with True f r show ?thesis by auto
next
  case False
  then show ?thesis by (auto simp: str_find_absent_iff str_rfind_absent_iff)
qed

section \<open>The \<^verbatim>\<open>try\<close> blocks, case by case\<close>

lemma summarize_try_unconfigured:
  "GEMINI_API_KEY env = [] \<Longrightarrow>
   summarize_try env request tr = (Inl (Exn ValueError not_configured_detail), tr)"
  by (simp add: summarize_try_def)

lemma summarize_try_raises:
  "GEMINI_API_KEY env \<noteq> [] \<Longrightarrow>
   generate_content env (summarize_call (text request)) = Inl e \<Longrightarrow>
   summarize_try env request tr = (Inl e, tr @ [GenerateContent (summarize_call (text request))])"
  by (simp add: summarize_try_def Let_def)

lemma summarize_try_malformed:
  assumes "GEMINI_API_KEY env \<noteq> []"
    and "generate_content env (summarize_call (text request)) = Inr raw"
    and "lbrace \<notin> set raw \<or> rbrace \<notin> set raw \<or> str_rfind raw rbrace < str_find raw lbrace"
  shows "summarize_try env request tr =
           (Inl (Exn ValueError summarize_malformed_detail),
            tr @ [GenerateContent (summarize_call (text request))])"
proof -
  from assms(3) have "\<not> (str_find raw lbrace \<noteq> - 1 \<and> str_rfind raw rbrace \<noteq> - 1 \<and>
       str_rfind raw rbrace > str_find raw lbrace)"
    by (simp only: brace_fail_iff)
  with assms(1,2) show ?thesis
    by (auto simp add: summarize_try_def Let_def)
qed

lemma summarize_try_sliced:
  assumes "GEMINI_API_KEY env \<noteq> []"
    and "generate_content env (summarize_call (text request)) = Inr raw"
    and "raw = pre @ lbrace # mid @ rbrace # post"
    and "lbrace \<notin> set pre" and "rbrace \<notin> set post"
  shows "summarize_try env request tr =
     (let cleaned_json_text = lbrace # mid @ [rbrace];
          tr2 = tr @ [GenerateContent (summarize_call (text request)), JsonLoads cleaned_json_text]
      in case json_loads env cleaned_json_text of
           Inl e \<Rightarrow>
             if is_JSONDecodeError (exn_class e) then
               (Inl (Exn ValueError summarize_invalid_detail),
                tr2 @
                [Print (ascii ''Error al decodificar JSON de la IA: '' @ exn_str e),
                 Print (ascii ''Texto recibido de la IA: '' @ cleaned_json_text)])
             else (Inl e, tr2)
         | Inr summary_data \<Rightarrow>
             if \<not> contains_key summary_data (ascii ''summary_es'') \<or>
                \<not> contains_key summary_data (ascii ''summary_en'')
             then (Inl (Exn ValueError summarize_missing_detail), tr2)
             else (Inr summary_data, tr2))"
proof -
  note b = brace_slice [OF assms(4) assms(5) assms(3)]
  have "str_find raw lbrace \<noteq> - 1 \<and> str_rfind raw rbrace \<noteq> - 1 \<and>
        str_rfind raw rbrace > str_find raw lbrace"
    using b(1) b(2) by simp
  then show ?thesis
    using assms(1,2) b(3) by (simp add: summarize_try_def Let_def)
qed

lemma contains_key_iff: "contains_key d k \<longleftrightarrow> k \<in> fst ` set d"
proof (cases "map_of d k")
  case None
  then have "k \<notin> fst ` set d" by (simp add: map_of_eq_None_iff)
  with None show ?thesis by (simp add: contains_key_def)
next
  case (Some v)
  then have "map_of d k \<noteq> None" by simp
  then have "k \<in> fst ` set d" by (simp add: map_of_eq_None_iff)
  with Some show ?thesis by (simp add: contains_key_def)
qed

lemma isinstance_list_iff: "isinstance_list v \<longleftrightarrow> (\<exists>xs. v = JList xs)"
  by (cases v) simp_all

lemma isinstance_list_get_iff:
  "isinstance_list (dict_get d k) \<longleftrightarrow> (\<exists>xs. map_of d k = Some (JList xs))"
  by (simp add: dict_get_def isinstance_list_iff split: option.splits)

lemma get_key_points_try_unconfigured:
  "GEMINI_API_KEY env = [] \<Longrightarrow>
   get_key_points_try env request tr = (Inl (Exn ValueError not_configured_detail), tr)"
  by (simp add: get_key_points_try_def)

lemma get_key_points_try_raises:
  "GEMINI_API_KEY env \<noteq> [] \<Longrightarrow>
   generate_content env (key_points_call (text request)) = Inl e \<Longrightarrow>
   get_key_points_try env request tr =
     (Inl e, tr @ [GenerateContent (key_points_call (text request))])"
  by (simp add: get_key_points_try_def Let_def)

lemma get_key_points_try_malformed:
  assumes "GEMINI_API_KEY env \<noteq> []"
    and "generate_content env (key_points_call (text request)) = Inr raw"
    and "lbrace \<notin> set raw \<or> rbrace \<notin> set raw \<or> str_rfind raw rbrace < str_find raw lbrace"
  shows "get_key_points_try env request tr =
           (Inl (Exn ValueError key_points_malformed_detail),
            tr @ [GenerateContent (key_points_call (text request))])"
proof -
  from assms(3) have "\<not> (str_find raw lbrace \<noteq> - 1 \<and> str_rfind raw rbrace \<noteq> - 1 \<and>
       str_rfind raw rbrace > str_find raw lbrace)"
    by (simp only: brace_fail_iff)
  with assms(1,2) show ?thesis
    by (auto simp add: get_key_points_try_def Let_def)
qed

lemma get_key_points_try_sliced:
  assumes "GEMINI_API_KEY env \<noteq> []"
    and "generate_content env (key_points_call (text request)) = Inr raw"
    and "raw = pre @ lbrace # mid @ rbrace # post"
    and "lbrace \<notin> set pre" and "rbrace \<notin> set post"
  shows "get_key_points_try env request tr =
     (let cleaned_json_text = lbrace # mid @ [rbrace];
          tr2 = tr @ [GenerateContent (key_points_call (text request)), JsonLoads cleaned_json_text]
      in case json_loads env cleaned_json_text of
           Inl e \<Rightarrow>
             if is_JSONDecodeError (exn_class e) then
               (Inl (Exn ValueError key_points_invalid_detail),
                tr2 @
                [Print (ascii ''Error al decodificar JSON de la IA para puntos clave: '' @ exn_str e),
                 Print (ascii ''Texto recibido de la IA para puntos clave: '' @ cleaned_json_text)])
             else (Inl e, tr2)
         | Inr key_points_data \<Rightarrow>
             if \<not> isinstance_list (dict_get key_points_data (ascii ''key_points_es'')) \<or>
                \<not> isinstance_list (dict_get key_points_data (ascii ''key_points_en''))
             then (Inl (Exn ValueError key_points_missing_detail), tr2)
             else (Inr key_points_data, tr2))"
proof -
  note b = brace_slice [OF assms(4) assms(5) assms(3)]
  have "str_find raw lbrace \<noteq> - 1 \<and> str_rfind raw rbrace \<noteq> - 1 \<and>
        str_rfind raw rbrace > str_find raw lbrace"
    using b(1) b(2) by simp
  then show ?thesis
    using assms(1,2) b(3) by (simp add: get_key_points_try_def Let_def)
qed

lemma external_calls_append:
  "external_calls (xs @ ys) = external_calls xs @ external_calls ys"
  by (induction xs rule: external_calls.induct) simp_all

lemma json_loads_args_append:
  "json_loads_args (xs @ ys) = json_loads_args xs @ json_loads_args ys"
  by (induction xs rule: json_loads_args.induct) simp_all

lemma printed_append:
  "printed (xs @ ys) = printed xs @ printed ys"
  by (induction xs rule: printed.induct) simp_all

lemma summarize_try_returns:
  assumes "summarize_try env request tr = (Inr d, tr')"
  shows "GEMINI_API_KEY env \<noteq> [] \<and>
         (\<exists>raw. generate_content env (summarize_call (text request)) = Inr raw \<and>
            str_find raw lbrace \<noteq> - 1 \<and> str_rfind raw rbrace \<noteq> - 1 \<and>
            str_find raw lbrace < str_rfind raw rbrace \<and>
            json_loads env (py_slice raw (str_find raw lbrace) (str_rfind raw rbrace + 1)) = Inr d) \<and>
         contains_key d (ascii ''summary_es'') \<and> contains_key d (ascii ''summary_en'')"
  using assms
  by (auto simp: summarize_try_def Let_def split: if_splits sum.splits)

lemma get_key_points_try_returns:
  assumes "get_key_points_try env request tr = (Inr d, tr')"
  shows "GEMINI_API_KEY env \<noteq> [] \<and>
         (\<exists>raw. generate_content env (key_points_call (text request)) = Inr raw \<and>
            str_find raw lbrace \<noteq> - 1 \<and> str_rfind raw rbrace \<noteq> - 1 \<and>
            str_find raw lbrace < str_rfind raw rbrace \<and>
            json_loads env (py_slice raw (str_find raw lbrace) (str_rfind raw rbrace + 1)) = Inr d) \<and>
         isinstance_list (dict_get d (ascii ''key_points_es'')) \<and>
         isinstance_list (dict_get d (ascii ''key_points_en''))"
  using assms
  by (auto simp: get_key_points_try_def Let_def split: if_splits sum.splits)

lemma summarize_text_Ok200:
  "fst (summarize_text env request tr) = Ok200 d \<longleftrightarrow>
   (\<exists>tr'. summarize_try env request tr = (Inr d, tr'))"
  by (auto simp: summarize_text_def split: prod.splits sum.splits if_splits)

lemma get_key_points_Ok200:
  "fst (get_key_points env request tr) = Ok200 d \<longleftrightarrow>
   (\<exists>tr'. get_key_points_try env request tr = (Inr d, tr'))"
  by (auto simp: get_key_points_def split: prod.splits sum.splits if_splits)

lemma sliced_decomposition:
  assumes "str_find raw lbrace \<noteq> - 1" and "str_rfind raw rbrace \<noteq> - 1"
    and "str_find raw lbrace < str_rfind raw rbrace"
  shows "\<exists>pre mid post. raw = pre @ lbrace # mid @ rbrace # post \<and>
           lbrace \<notin> set pre \<and> rbrace \<notin> set post \<and>
           str_find raw lbrace = int (length pre) \<and>
           str_rfind raw rbrace = int (length pre + length mid + 1) \<and>
           py_slice raw (str_find raw lbrace) (str_rfind raw rbrace + 1) = lbrace # mid @ [rbrace]"
proof -
  from brace_split [OF assms] obtain pre mid post
    where d: "raw = pre @ lbrace # mid @ rbrace # post" "lbrace \<notin> set pre" "rbrace \<notin> set post"
    by blast
  note b = brace_slice [OF d(2) d(3) d(1)]
  from d b show ?thesis by blast
qed

section \<open>The handlers, case by case\<close>

lemma summarize_text_malformed:
  assumes "GEMINI_API_KEY env \<noteq> []"
    and "generate_content env (summarize_call (text request)) = Inr raw"
    and "lbrace \<notin> set raw \<or> rbrace \<notin> set raw \<or> str_rfind raw rbrace < str_find raw lbrace"
  shows "summarize_text env request tr =
           (HTTPException 400 summarize_malformed_detail,
            tr @ [GenerateContent (summarize_call (text request))])"
  by (simp add: summarize_text_def summarize_try_malformed [OF assms])

lemma get_key_points_malformed:
  assumes "GEMINI_API_KEY env \<noteq> []"
    and "generate_content env (key_points_call (text request)) = Inr raw"
    and "lbrace \<notin> set raw \<or> rbrace \<notin> set raw \<or> str_rfind raw rbrace < str_find raw lbrace"
  shows "get_key_points env request tr =
           (HTTPException 400 key_points_malformed_detail,
            tr @ [GenerateContent (key_points_call (text request))])"
  by (simp add: get_key_points_def get_key_points_try_malformed [OF assms])

lemma summarize_text_sliced_args:
  assumes "GEMINI_API_KEY env \<noteq> []"
    and "generate_content env (summarize_call (text request)) = Inr raw"
    and "raw = pre @ lbrace # mid @ rbrace # post"
    and "lbrace \<notin> set pre" and "rbrace \<notin> set post"
  shows "json_loads_args (snd (summarize_text env request tr)) =
           json_loads_args tr @ [lbrace # mid @ [rbrace]]"
  by (simp add: summarize_text_def summarize_try_sliced [OF assms] Let_def
      json_loads_args_append split: sum.splits)

lemma get_key_points_sliced_args:
  assumes "GEMINI_API_KEY env \<noteq> []"
    and "generate_content env (key_points_call (text request)) = Inr raw"
    and "raw = pre @ lbrace # mid @ rbrace # post"
    and "lbrace \<notin> set pre" and "rbrace \<notin> set post"
  shows "json_loads_args (snd (get_key_points env request tr)) =
           json_loads_args tr @ [lbrace # mid @ [rbrace]]"
  by (simp add: get_key_points_def get_key_points_try_sliced [OF assms] Let_def
      json_loads_args_append split: sum.splits)

lemma summarize_text_invalid:
  assumes "GEMINI_API_KEY env \<noteq> []"
    and "generate_content env (summarize_call (text request)) = Inr raw"
    and "raw = pre @ lbrace # mid @ rbrace # post"
    and "lbrace \<notin> set pre" and "rbrace \<notin> set post"
    and "json_loads env (lbrace # mid @ [rbrace]) = Inl e"
    and "is_JSONDecodeError (exn_class e)"
  shows "summarize_text env request tr =
           (HTTPException 400 summarize_invalid_detail,
            tr @ [GenerateContent (summarize_call (text request)),
                  JsonLoads (lbrace # mid @ [rbrace]),
                  Print (ascii ''Error al decodificar JSON de la IA: '' @ exn_str e),
                  Print (ascii ''Texto recibido de la IA: '' @ lbrace # mid @ [rbrace])])"
  using assms(6,7)
  by (simp add: summarize_text_def summarize_try_sliced [OF assms(1-5)] Let_def)

lemma get_key_points_invalid:
  assumes "GEMINI_API_KEY env \<noteq> []"
    and "generate_content env (key_points_call (text request)) = Inr raw"
    and "raw = pre @ lbrace # mid @ rbrace # post"
    and "lbrace \<notin> set pre" and "rbrace \<notin> set post"
    and "json_loads env (lbrace # mid @ [rbrace]) = Inl e"
    and "is_JSONDecodeError (exn_class e)"
  shows "get_key_points env request tr =
           (HTTPException 400 key_points_invalid_detail,
            tr @ [GenerateContent (key_points_call (text request)),
                  JsonLoads (lbrace # mid @ [rbrace]),
                  Print (ascii ''Error al decodificar JSON de la IA para puntos clave: '' @ exn_str e),
                  Print (ascii ''Texto recibido de la IA para puntos clave: '' @
                         lbrace # mid @ [rbrace])])"
  using assms(6,7)
  by (simp add: get_key_points_def get_key_points_try_sliced [OF assms(1-5)] Let_def)

lemma no_brace_no_sublist:
  assumes "lbrace \<notin> set detail"
  shows "\<not> sublist (lbrace # mid @ [rbrace]) detail"
proof
  assume "sublist (lbrace # mid @ [rbrace]) detail"
  then have "set (lbrace # mid @ [rbrace]) \<subseteq> set detail"
    by (rule set_mono_sublist)
  with assms show False by simp
qed

lemma summarize_invalid_detail_no_brace: "lbrace \<notin> set summarize_invalid_detail"
  by (simp add: summarize_invalid_detail_def ascii_def lbrace_def)

lemma key_points_invalid_detail_no_brace: "lbrace \<notin> set key_points_invalid_detail"
  by (simp add: key_points_invalid_detail_def ascii_def lbrace_def)

section \<open>The test doubles\<close>

lemma mock_env_key: "GEMINI_API_KEY (mock_env raw) \<noteq> []"
  by (simp add: mock_env_def ascii_def)

lemma mock_env_generate: "generate_content (mock_env raw) call = Inr raw"
  by (simp add: mock_env_def)

section \<open>What a response depends on\<close>

lemma summarize_text_calls:
  "GEMINI_API_KEY env \<noteq> [] \<Longrightarrow>
   external_calls (snd (summarize_text env request tr)) =
     external_calls tr @ [summarize_call (text request)]"
  by (auto simp: summarize_text_def summarize_try_def Let_def external_calls_append
      split: sum.splits)

lemma get_key_points_calls:
  "GEMINI_API_KEY env \<noteq> [] \<Longrightarrow>
   external_calls (snd (get_key_points env request tr)) =
     external_calls tr @ [key_points_call (text request)]"
  by (auto simp: get_key_points_def get_key_points_try_def Let_def external_calls_append
      split: sum.splits)

lemma summarize_text_response_trace_free:
  "fst (summarize_text env request tr1) = fst (summarize_text env request tr2)"
  by (auto simp: summarize_text_def summarize_try_def Let_def split: sum.splits)

lemma get_key_points_response_trace_free:
  "fst (get_key_points env request tr1) = fst (get_key_points env request tr2)"
  by (auto simp: get_key_points_def get_key_points_try_def Let_def split: sum.splits)

lemma summarize_text_response_cong:
  assumes "GEMINI_API_KEY env1 = [] \<longleftrightarrow> GEMINI_API_KEY env2 = []"
    and "json_loads env1 = json_loads env2"
    and "generate_content env1 (summarize_call (text request)) =
         generate_content env2 (summarize_call (text request))"
  shows "fst (summarize_text env1 request tr) = fst (summarize_text env2 request tr)"
  using assms
  by (auto simp: summarize_text_def summarize_try_def Let_def split: sum.splits)

lemma get_key_points_response_cong:
  assumes "GEMINI_API_KEY env1 = [] \<longleftrightarrow> GEMINI_API_KEY env2 = []"
    and "json_loads env1 = json_loads env2"
    and "generate_content env1 (key_points_call (text request)) =
         generate_content env2 (key_points_call (text request))"
  shows "fst (get_key_points env1 request tr) = fst (get_key_points env2 request tr)"
  using assms
  by (auto simp: get_key_points_def get_key_points_try_def Let_def split: sum.splits)

section \<open>The other ways out of a handler\<close>

lemma summarize_text_missing:
  assumes "GEMINI_API_KEY env \<noteq> []"
    and "generate_content env (summarize_call (text request)) = Inr raw"
    and "raw = pre @ lbrace # mid @ rbrace # post"
    and "lbrace \<notin> set pre" and "rbrace \<notin> set post"
    and "json_loads env (lbrace # mid @ [rbrace]) = Inr d"
    and "ascii ''summary_es'' \<notin> fst ` set d \<or> ascii ''summary_en'' \<notin> fst ` set d"
  shows "fst (summarize_text env request tr) = HTTPException 400 summarize_missing_detail"
  using assms(6,7)
  by (auto simp: summarize_text_def summarize_try_sliced [OF assms(1-5)] Let_def
      contains_key_iff)

lemma service_value_error_gives_400:
  assumes "GEMINI_API_KEY env \<noteq> []" and "is_ValueError (exn_class e)"
  shows "generate_content env (summarize_call (text request)) = Inl e \<Longrightarrow>
           fst (summarize_text env request tr) = HTTPException 400 (exn_str e)"
    and "generate_content env (key_points_call (text request)) = Inl e \<Longrightarrow>
           fst (get_key_points env request tr) = HTTPException 400 (exn_str e)"
  using assms
  by (simp_all add: summarize_text_def get_key_points_def summarize_try_raises
      get_key_points_try_raises)

lemma base_exception_is_not_caught:
  assumes "GEMINI_API_KEY env \<noteq> []" and "\<not> is_Exception (exn_class e)"
  shows "generate_content env (summarize_call (text request)) = Inl e \<Longrightarrow>
           fst (summarize_text env request tr) = Uncaught e"
    and "generate_content env (key_points_call (text request)) = Inl e \<Longrightarrow>
           fst (get_key_points env request tr) = Uncaught e"
proof -
  from assms(2) have "\<not> is_ValueError (exn_class e)"
    by (cases "exn_class e") simp_all
  with assms show
    "generate_content env (summarize_call (text request)) = Inl e \<Longrightarrow>
       fst (summarize_text env request tr) = Uncaught e"
    "generate_content env (key_points_call (text request)) = Inl e \<Longrightarrow>
       fst (get_key_points env request tr) = Uncaught e"
    by (simp_all add: summarize_text_def get_key_points_def summarize_try_raises
        get_key_points_try_raises)
qed

lemma brace_decomposition_unique:
  assumes "raw = pre @ lbrace # mid @ rbrace # post"
    and "lbrace \<notin> set pre" and "rbrace \<notin> set post"
    and "raw = pre' @ lbrace # mid' @ rbrace # post'"
    and "lbrace \<notin> set pre'" and "rbrace \<notin> set post'"
  shows "mid' = mid"
proof -
  have "lbrace # mid' @ [rbrace] = lbrace # mid @ [rbrace]"
    using brace_slice(3) [OF assms(2,3,1)] brace_slice(3) [OF assms(5,6,4)] by simp
  then show ?thesis by simp
qed

section \<open>From the handler to the response\<close>














section \<open>The properties of the handlers\<close>

text \<open>
  C1. A handler returns an object exactly when the credential is set, the service
  answered with a text that has a \<^verbatim>\<open>{\<close> before a \<^verbatim>\<open>}\<close>, the decoder turned
  the text from the first \<^verbatim>\<open>{\<close> to the last \<^verbatim>\<open>}\<close> into that object, and the object has
  both language fields: present, for \<^verbatim>\<open>/summarize\<close>, where the type of the values is
  not looked at; present and lists, for \<^verbatim>\<open>/key-points\<close>. In every other case the
  response is no \<open>Ok200\<close>: the handler raised.
\<close>

theorem sanitizer_returns_only_validated_objects:
  "(fst (summarize_text env request tr) = Ok200 d \<longleftrightarrow>
      GEMINI_API_KEY env \<noteq> [] \<and>
      (\<exists>pre mid post.
         generate_content env (summarize_call (text request)) =
           Inr (pre @ lbrace # mid @ rbrace # post) \<and>
         lbrace \<notin> set pre \<and> rbrace \<notin> set post \<and>
         json_loads env (lbrace # mid @ [rbrace]) = Inr d) \<and>
      ascii ''summary_es'' \<in> fst ` set d \<and> ascii ''summary_en'' \<in> fst ` set d) \<and>
   (fst (get_key_points env request tr) = Ok200 d \<longleftrightarrow>
      GEMINI_API_KEY env \<noteq> [] \<and>
      (\<exists>pre mid post.
         generate_content env (key_points_call (text request)) =
           Inr (pre @ lbrace # mid @ rbrace # post) \<and>
         lbrace \<notin> set pre \<and> rbrace \<notin> set post \<and>
         json_loads env (lbrace # mid @ [rbrace]) = Inr d) \<and>
      (\<exists>xs. map_of d (ascii ''key_points_es'') = Some (JList xs)) \<and>
      (\<exists>ys. map_of d (ascii ''key_points_en'') = Some (JList ys)))"
proof -
  have S: "fst (summarize_text env request tr) = Ok200 d \<longleftrightarrow>
      GEMINI_API_KEY env \<noteq> [] \<and>
      (\<exists>pre mid post.
         generate_content env (summarize_call (text request)) =
           Inr (pre @ lbrace # mid @ rbrace # post) \<and>
         lbrace \<notin> set pre \<and> rbrace \<notin> set post \<and>
         json_loads env (lbrace # mid @ [rbrace]) = Inr d) \<and>
      ascii ''summary_es'' \<in> fst ` set d \<and> ascii ''summary_en'' \<in> fst ` set d"
  proof
  assume "fst (summarize_text env request tr) = Ok200 d"
  then obtain tr' where "summarize_try env request tr = (Inr d, tr')"
    by (auto simp: summarize_text_Ok200)
  from summarize_try_returns [OF this] obtain raw where
    k: "GEMINI_API_KEY env \<noteq> []" and
    g: "generate_content env (summarize_call (text request)) = Inr raw" and
    s: "str_find raw lbrace \<noteq> - 1" "str_rfind raw rbrace \<noteq> - 1"
       "str_find raw lbrace < str_rfind raw rbrace" and
    j: "json_loads env (py_slice raw (str_find raw lbrace) (str_rfind raw rbrace + 1)) = Inr d" and
    c: "contains_key d (ascii ''summary_es'')" "contains_key d (ascii ''summary_en'')"
    by blast
  from sliced_decomposition [OF s] obtain pre mid post where
    "raw = pre @ lbrace # mid @ rbrace # post" "lbrace \<notin> set pre" "rbrace \<notin> set post"
    "py_slice raw (str_find raw lbrace) (str_rfind raw rbrace + 1) = lbrace # mid @ [rbrace]"
    by blast
  with k g j c show "GEMINI_API_KEY env \<noteq> [] \<and>
      (\<exists>pre mid post.
         generate_content env (summarize_call (text request)) =
           Inr (pre @ lbrace # mid @ rbrace # post) \<and>
         lbrace \<notin> set pre \<and> rbrace \<notin> set post \<and>
         json_loads env (lbrace # mid @ [rbrace]) = Inr d) \<and>
      ascii ''summary_es'' \<in> fst ` set d \<and> ascii ''summary_en'' \<in> fst ` set d"
    by (auto simp: contains_key_iff)
  next
  assume a: "GEMINI_API_KEY env \<noteq> [] \<and>
      (\<exists>pre mid post.
         generate_content env (summarize_call (text request)) =
           Inr (pre @ lbrace # mid @ rbrace # post) \<and>
         lbrace \<notin> set pre \<and> rbrace \<notin> set post \<and>
         json_loads env (lbrace # mid @ [rbrace]) = Inr d) \<and>
      ascii ''summary_es'' \<in> fst ` set d \<and> ascii ''summary_en'' \<in> fst ` set d"
  then obtain pre mid post where
    k: "GEMINI_API_KEY env \<noteq> []" and
    g: "generate_content env (summarize_call (text request)) =
           Inr (pre @ lbrace # mid @ rbrace # post)" and
    p: "lbrace \<notin> set pre" "rbrace \<notin> set post" and
    j: "json_loads env (lbrace # mid @ [rbrace]) = Inr d"
    by blast
  from a j have "summarize_try env request tr =
          (Inr d, tr @ [GenerateContent (summarize_call (text request)),
                        JsonLoads (lbrace # mid @ [rbrace])])"
    by (simp add: summarize_try_sliced [OF k g refl p] contains_key_iff)
  then show "fst (summarize_text env request tr) = Ok200 d"
    by (simp add: summarize_text_def)
  qed
  have K: "fst (get_key_points env request tr) = Ok200 d \<longleftrightarrow>
      GEMINI_API_KEY env \<noteq> [] \<and>
      (\<exists>pre mid post.
         generate_content env (key_points_call (text request)) =
           Inr (pre @ lbrace # mid @ rbrace # post) \<and>
         lbrace \<notin> set pre \<and> rbrace \<notin> set post \<and>
         json_loads env (lbrace # mid @ [rbrace]) = Inr d) \<and>
      (\<exists>xs. map_of d (ascii ''key_points_es'') = Some (JList xs)) \<and>
      (\<exists>ys. map_of d (ascii ''key_points_en'') = Some (JList ys))"
  proof
  assume "fst (get_key_points env request tr) = Ok200 d"
  then obtain tr' where "get_key_points_try env request tr = (Inr d, tr')"
    by (auto simp: get_key_points_Ok200)
  from get_key_points_try_returns [OF this] obtain raw where
    k: "GEMINI_API_KEY env \<noteq> []" and
    g: "generate_content env (key_points_call (text request)) = Inr raw" and
    s: "str_find raw lbrace \<noteq> - 1" "str_rfind raw rbrace \<noteq> - 1"
       "str_find raw lbrace < str_rfind raw rbrace" and
    j: "json_loads env (py_slice raw (str_find raw lbrace) (str_rfind raw rbrace + 1)) = Inr d" and
    c: "isinstance_list (dict_get d (ascii ''key_points_es''))"
       "isinstance_list (dict_get d (ascii ''key_points_en''))"
    by blast
  from sliced_decomposition [OF s] obtain pre mid post where
    "raw = pre @ lbrace # mid @ rbrace # post" "lbrace \<notin> set pre" "rbrace \<notin> set post"
    "py_slice raw (str_find raw lbrace) (str_rfind raw rbrace + 1) = lbrace # mid @ [rbrace]"
    by blast
  with k g j c show "GEMINI_API_KEY env \<noteq> [] \<and>
      (\<exists>pre mid post.
         generate_content env (key_points_call (text request)) =
           Inr (pre @ lbrace # mid @ rbrace # post) \<and>
         lbrace \<notin> set pre \<and> rbrace \<notin> set post \<and>
         json_loads env (lbrace # mid @ [rbrace]) = Inr d) \<and>
      (\<exists>xs. map_of d (ascii ''key_points_es'') = Some (JList xs)) \<and>
      (\<exists>ys. map_of d (ascii ''key_points_en'') = Some (JList ys))"
    by (auto simp: isinstance_list_get_iff)
  next
  assume a: "GEMINI_API_KEY env \<noteq> [] \<and>
      (\<exists>pre mid post.
         generate_content env (key_points_call (text request)) =
           Inr (pre @ lbrace # mid @ rbrace # post) \<and>
         lbrace \<notin> set pre \<and> rbrace \<notin> set post \<and>
         json_loads env (lbrace # mid @ [rbrace]) = Inr d) \<and>
      (\<exists>xs. map_of d (ascii ''key_points_es'') = Some (JList xs)) \<and>
      (\<exists>ys. map_of d (ascii ''key_points_en'') = Some (JList ys))"
  then obtain pre mid post where
    k: "GEMINI_API_KEY env \<noteq> []" and
    g: "generate_content env (key_points_call (text request)) =
           Inr (pre @ lbrace # mid @ rbrace # post)" and
    p: "lbrace \<notin> set pre" "rbrace \<notin> set post" and
    j: "json_loads env (lbrace # mid @ [rbrace]) = Inr d"
    by blast
  from a have "isinstance_list (dict_get d (ascii ''key_points_es''))"
    "isinstance_list (dict_get d (ascii ''key_points_en''))"
    by (simp_all only: isinstance_list_get_iff)
  with j have "get_key_points_try env request tr =
          (Inr d, tr @ [GenerateContent (key_points_call (text request)),
                        JsonLoads (lbrace # mid @ [rbrace])])"
    by (simp add: get_key_points_try_sliced [OF k g refl p])
  then show "fst (get_key_points env request tr) = Ok200 d"
    by (simp add: get_key_points_def)
  qed
  from S K show ?thesis by (rule conjI)
qed

theorem sanitizer_returns_only_validated_objects_witness:
  "fst (summarize_text (mock_env wrapped_summary_text) sample_request []) = Ok200 summary_obj \<and>
   ascii ''summary_en'' \<notin> fst ` set summary_only_es_obj \<and>
   (\<forall>d. fst (summarize_text (mock_env only_es_text) sample_request []) \<noteq> Ok200 d) \<and>
   fst (get_key_points (mock_env wrapped_key_points_text) sample_request []) =
     Ok200 key_points_obj \<and>
   map_of key_points_scalar_obj (ascii ''key_points_es'') = Some (JStr (ascii ''not a list'')) \<and>
   (\<forall>d. fst (get_key_points (mock_env scalar_key_points_text) sample_request []) \<noteq> Ok200 d)"
proof -
  note c1 = sanitizer_returns_only_validated_objects
  have b: "lbrace \<notin> set (ascii ''Claro: '')" "rbrace \<notin> set (ascii '' Listo.'')"
    "lbrace \<notin> set (ascii ''Aqui: '')" "rbrace \<notin> set (ascii '' fin'')"
    "lbrace \<notin> set (ascii ''blah '')" "rbrace \<notin> set (ascii '' blah'')"
    by (simp_all add: ascii_def lbrace_def rbrace_def)
  have j: "json_loads (mock_env raw) (lbrace # summary_body @ [rbrace]) = Inr summary_obj"
    "json_loads (mock_env raw) (lbrace # summary_only_es_body @ [rbrace]) = Inr summary_only_es_obj"
    "json_loads (mock_env raw) (lbrace # key_points_body @ [rbrace]) = Inr key_points_obj"
    "json_loads (mock_env raw) (lbrace # key_points_scalar_body @ [rbrace]) =
       Inr key_points_scalar_obj" for raw
    by (simp_all add: mock_env_def mock_json_loads_def lbrace_def rbrace_def ascii_def
        summary_body_def summary_extra_body_def summary_only_es_body_def key_points_body_def
        key_points_scalar_body_def)
  have f: "ascii ''summary_es'' \<in> fst ` set summary_obj"
    "ascii ''summary_en'' \<in> fst ` set summary_obj"
    "ascii ''summary_en'' \<notin> fst ` set summary_only_es_obj"
    by (simp_all add: summary_obj_def summary_only_es_obj_def ascii_def)
  have m: "map_of key_points_obj (ascii ''key_points_es'') =
      Some (JList [JStr (ascii ''a''), JStr (ascii ''b''), JStr (ascii ''c'')])"
    "map_of key_points_obj (ascii ''key_points_en'') =
      Some (JList [JStr (ascii ''a''), JStr (ascii ''b''), JStr (ascii ''c'')])"
    "map_of key_points_scalar_obj (ascii ''key_points_es'') = Some (JStr (ascii ''not a list''))"
    by (simp_all add: key_points_obj_def key_points_scalar_obj_def ascii_def)
  have 1: "fst (summarize_text (mock_env wrapped_summary_text) sample_request []) =
             Ok200 summary_obj"
  proof -
    have "generate_content (mock_env wrapped_summary_text) (summarize_call (text sample_request)) =
            Inr (ascii ''Claro: '' @ lbrace # summary_body @ rbrace # ascii '' Listo.'')"
      by (simp add: mock_env_generate wrapped_summary_text_def)
    with b(1,2) j(1) have "\<exists>pre mid post.
         generate_content (mock_env wrapped_summary_text) (summarize_call (text sample_request)) =
           Inr (pre @ lbrace # mid @ rbrace # post) \<and>
         lbrace \<notin> set pre \<and> rbrace \<notin> set post \<and>
         json_loads (mock_env wrapped_summary_text) (lbrace # mid @ [rbrace]) = Inr summary_obj"
      by blast
    with mock_env_key [of wrapped_summary_text] f(1,2) show ?thesis
      by (simp only: conjunct1 [OF c1] simp_thms)
  qed
  have 2: "fst (summarize_text (mock_env only_es_text) sample_request []) \<noteq> Ok200 d" for d
  proof
    assume "fst (summarize_text (mock_env only_es_text) sample_request []) = Ok200 d"
    with conjunct1 [OF c1, of "mock_env only_es_text" sample_request "[]" d]
    obtain pre mid post where
      d: "only_es_text = pre @ lbrace # mid @ rbrace # post"
        "lbrace \<notin> set pre" "rbrace \<notin> set post"
        "json_loads (mock_env only_es_text) (lbrace # mid @ [rbrace]) = Inr d"
        "ascii ''summary_en'' \<in> fst ` set d"
      by (auto simp: mock_env_generate)
    from brace_decomposition_unique [OF only_es_text_def b(5,6) d(1,2,3)]
    have "mid = summary_only_es_body" .
    with d(4) j(2) have "d = summary_only_es_obj" by simp
    with d(5) f(3) show False by simp
  qed
  have 3: "fst (get_key_points (mock_env wrapped_key_points_text) sample_request []) =
             Ok200 key_points_obj"
  proof -
    have "generate_content (mock_env wrapped_key_points_text)
            (key_points_call (text sample_request)) =
            Inr (ascii ''Aqui: '' @ lbrace # key_points_body @ rbrace # ascii '' fin'')"
      by (simp add: mock_env_generate wrapped_key_points_text_def)
    with b(3,4) j(3) have "\<exists>pre mid post.
         generate_content (mock_env wrapped_key_points_text)
           (key_points_call (text sample_request)) =
           Inr (pre @ lbrace # mid @ rbrace # post) \<and>
         lbrace \<notin> set pre \<and> rbrace \<notin> set post \<and>
         json_loads (mock_env wrapped_key_points_text) (lbrace # mid @ [rbrace]) =
           Inr key_points_obj"
      by blast
    moreover from m(1,2) have
      "\<exists>xs. map_of key_points_obj (ascii ''key_points_es'') = Some (JList xs)"
      "\<exists>ys. map_of key_points_obj (ascii ''key_points_en'') = Some (JList ys)"
      by blast+
    ultimately show ?thesis
      using mock_env_key [of wrapped_key_points_text]
      by (simp only: conjunct2 [OF c1] simp_thms)
  qed
  have 4: "fst (get_key_points (mock_env scalar_key_points_text) sample_request []) \<noteq> Ok200 d"
    for d
  proof
    assume "fst (get_key_points (mock_env scalar_key_points_text) sample_request []) = Ok200 d"
    with conjunct2 [OF c1, of "mock_env scalar_key_points_text" sample_request "[]" d]
    obtain pre mid post xs where
      d: "scalar_key_points_text = pre @ lbrace # mid @ rbrace # post"
        "lbrace \<notin> set pre" "rbrace \<notin> set post"
        "json_loads (mock_env scalar_key_points_text) (lbrace # mid @ [rbrace]) = Inr d"
        "map_of d (ascii ''key_points_es'') = Some (JList xs)"
      by (auto simp: mock_env_generate)
    have "scalar_key_points_text = [] @ lbrace # key_points_scalar_body @ rbrace # []"
      by (simp add: scalar_key_points_text_def)
    from brace_decomposition_unique [OF this _ _ d(1,2,3)]
    have "mid = key_points_scalar_body" by simp
    with d(4) j(4) have "d = key_points_scalar_obj" by simp
    with d(5) m(3) show False by simp
  qed
  from 1 2 3 4 f(3) m(3) show ?thesis by blast
qed







text \<open>
  C4. When the text of the service has no \<^verbatim>\<open>{\<close>, or no \<^verbatim>\<open>}\<close>, or its last \<^verbatim>\<open>}\<close>
  comes before its first \<^verbatim>\<open>{\<close>, both handlers raise the 400 error of a malformed
  answer and the decoder is not called. Otherwise the text is \<open>pre\<close>, \<^verbatim>\<open>{\<close>,
  \<open>mid\<close>, \<^verbatim>\<open>}\<close>, \<open>post\<close> with the first \<^verbatim>\<open>{\<close> and the last \<^verbatim>\<open>}\<close> at
  the indices that \<open>str_find\<close> and \<open>str_rfind\<close> return, and the decoder is called once,
  on the part from the one to the other, both included.
\<close>

theorem brace_scan_decides_decoder_input:
  assumes "GEMINI_API_KEY env \<noteq> []"
  shows
    "(generate_content env (summarize_call (text request)) = Inr raw \<longrightarrow>
        (lbrace \<notin> set raw \<or> rbrace \<notin> set raw \<or> str_rfind raw rbrace < str_find raw lbrace \<longrightarrow>
           fst (summarize_text env request tr) = HTTPException 400 summarize_malformed_detail \<and>
           json_loads_args (snd (summarize_text env request tr)) = json_loads_args tr) \<and>
        (\<not> (lbrace \<notin> set raw \<or> rbrace \<notin> set raw \<or> str_rfind raw rbrace < str_find raw lbrace) \<longrightarrow>
           (\<exists>pre mid post.
              raw = pre @ lbrace # mid @ rbrace # post \<and>
              lbrace \<notin> set pre \<and> rbrace \<notin> set post \<and>
              str_find raw lbrace = int (length pre) \<and>
              str_rfind raw rbrace = int (length pre + length mid + 1) \<and>
              json_loads_args (snd (summarize_text env request tr)) =
                json_loads_args tr @ [lbrace # mid @ [rbrace]]))) \<and>
     (generate_content env (key_points_call (text request)) = Inr raw \<longrightarrow>
        (lbrace \<notin> set raw \<or> rbrace \<notin> set raw \<or> str_rfind raw rbrace < str_find raw lbrace \<longrightarrow>
           fst (get_key_points env request tr) = HTTPException 400 key_points_malformed_detail \<and>
           json_loads_args (snd (get_key_points env request tr)) = json_loads_args tr) \<and>
        (\<not> (lbrace \<notin> set raw \<or> rbrace \<notin> set raw \<or> str_rfind raw rbrace < str_find raw lbrace) \<longrightarrow>
           (\<exists>pre mid post.
              raw = pre @ lbrace # mid @ rbrace # post \<and>
              lbrace \<notin> set pre \<and> rbrace \<notin> set post \<and>
              str_find raw lbrace = int (length pre) \<and>
              str_rfind raw rbrace = int (length pre + length mid + 1) \<and>
              json_loads_args (snd (get_key_points env request tr)) =
                json_loads_args tr @ [lbrace # mid @ [rbrace]])))"
proof -
  have split: "\<exists>pre mid post.
              raw = pre @ lbrace # mid @ rbrace # post \<and>
              lbrace \<notin> set pre \<and> rbrace \<notin> set post \<and>
              str_find raw lbrace = int (length pre) \<and>
              str_rfind raw rbrace = int (length pre + length mid + 1)"
    if "\<not> (lbrace \<notin> set raw \<or> rbrace \<notin> set raw \<or> str_rfind raw rbrace < str_find raw lbrace)"
  proof -
    from that have "str_find raw lbrace \<noteq> - 1 \<and> str_rfind raw rbrace \<noteq> - 1 \<and>
       str_rfind raw rbrace > str_find raw lbrace"
      using brace_fail_iff [of raw] by blast
    then show ?thesis
      using sliced_decomposition [of raw] by blast
  qed
  have S: "fst (summarize_text env request tr) = HTTPException 400 summarize_malformed_detail \<and>
           json_loads_args (snd (summarize_text env request tr)) = json_loads_args tr"
    if "generate_content env (summarize_call (text request)) = Inr raw"
      and "lbrace \<notin> set raw \<or> rbrace \<notin> set raw \<or> str_rfind raw rbrace < str_find raw lbrace"
    by (simp add: summarize_text_malformed [OF assms that] json_loads_args_append)
  have K: "fst (get_key_points env request tr) = HTTPException 400 key_points_malformed_detail \<and>
           json_loads_args (snd (get_key_points env request tr)) = json_loads_args tr"
    if "generate_content env (key_points_call (text request)) = Inr raw"
      and "lbrace \<notin> set raw \<or> rbrace \<notin> set raw \<or> str_rfind raw rbrace < str_find raw lbrace"
    by (simp add: get_key_points_malformed [OF assms that] json_loads_args_append)
  have S': "\<exists>pre mid post.
              raw = pre @ lbrace # mid @ rbrace # post \<and>
              lbrace \<notin> set pre \<and> rbrace \<notin> set post \<and>
              str_find raw lbrace = int (length pre) \<and>
              str_rfind raw rbrace = int (length pre + length mid + 1) \<and>
              json_loads_args (snd (summarize_text env request tr)) =
                json_loads_args tr @ [lbrace # mid @ [rbrace]]"
    if g: "generate_content env (summarize_call (text request)) = Inr raw"
      and n: "\<not> (lbrace \<notin> set raw \<or> rbrace \<notin> set raw \<or> str_rfind raw rbrace < str_find raw lbrace)"
  proof -
    from split [OF n] obtain pre mid post where
      d: "raw = pre @ lbrace # mid @ rbrace # post" "lbrace \<notin> set pre" "rbrace \<notin> set post"
         "str_find raw lbrace = int (length pre)"
         "str_rfind raw rbrace = int (length pre + length mid + 1)"
      by blast
    from summarize_text_sliced_args [OF assms g d(1) d(2) d(3)] d show ?thesis
      by blast
  qed
  have K': "\<exists>pre mid post.
              raw = pre @ lbrace # mid @ rbrace # post \<and>
              lbrace \<notin> set pre \<and> rbrace \<notin> set post \<and>
              str_find raw lbrace = int (length pre) \<and>
              str_rfind raw rbrace = int (length pre + length mid + 1) \<and>
              json_loads_args (snd (get_key_points env request tr)) =
                json_loads_args tr @ [lbrace # mid @ [rbrace]]"
    if g: "generate_content env (key_points_call (text request)) = Inr raw"
      and n: "\<not> (lbrace \<notin> set raw \<or> rbrace \<notin> set raw \<or> str_rfind raw rbrace < str_find raw lbrace)"
  proof -
    from split [OF n] obtain pre mid post where
      d: "raw = pre @ lbrace # mid @ rbrace # post" "lbrace \<notin> set pre" "rbrace \<notin> set post"
         "str_find raw lbrace = int (length pre)"
         "str_rfind raw rbrace = int (length pre + length mid + 1)"
      by blast
    from get_key_points_sliced_args [OF assms g d(1) d(2) d(3)] d show ?thesis
      by blast
  qed
  from S S' K K' show ?thesis by blast
qed

theorem brace_scan_decides_decoder_input_witness:
  "GEMINI_API_KEY (mock_env prose_text) \<noteq> [] \<and>
   generate_content (mock_env prose_text) (summarize_call (text sample_request)) = Inr prose_text \<and>
   generate_content (mock_env prose_text) (key_points_call (text sample_request)) = Inr prose_text \<and>
   lbrace \<notin> set prose_text \<and>
   fst (summarize_text (mock_env prose_text) sample_request []) =
     HTTPException 400 summarize_malformed_detail \<and>
   fst (get_key_points (mock_env prose_text) sample_request []) =
     HTTPException 400 key_points_malformed_detail \<and>
   json_loads_args (snd (summarize_text (mock_env prose_text) sample_request [])) = [] \<and>
   generate_content (mock_env reversed_text) (summarize_call (text sample_request)) =
     Inr reversed_text \<and>
   str_rfind reversed_text rbrace < str_find reversed_text lbrace \<and>
   fst (summarize_text (mock_env reversed_text) sample_request []) =
     HTTPException 400 summarize_malformed_detail \<and>
   generate_content (mock_env wrapped_summary_text) (summarize_call (text sample_request)) =
     Inr wrapped_summary_text \<and>
   lbrace \<in> set wrapped_summary_text \<and> rbrace \<in> set wrapped_summary_text \<and>
   str_find wrapped_summary_text lbrace < str_rfind wrapped_summary_text rbrace \<and>
   json_loads_args (snd (summarize_text (mock_env wrapped_summary_text) sample_request [])) =
     [lbrace # summary_body @ [rbrace]] \<and>
   generate_content (mock_env wrapped_key_points_text) (key_points_call (text sample_request)) =
     Inr wrapped_key_points_text \<and>
   lbrace \<in> set wrapped_key_points_text \<and> rbrace \<in> set wrapped_key_points_text \<and>
   str_find wrapped_key_points_text lbrace < str_rfind wrapped_key_points_text rbrace \<and>
   json_loads_args (snd (get_key_points (mock_env wrapped_key_points_text) sample_request [])) =
     [lbrace # key_points_body @ [rbrace]]"
proof -
  note k = mock_env_key and g = mock_env_generate
  have p: "lbrace \<notin> set prose_text"
    by (simp add: prose_text_def ascii_def lbrace_def)
  have r: "str_rfind reversed_text rbrace < str_find reversed_text lbrace"
    by (simp add: reversed_text_def ascii_def lbrace_def rbrace_def)
  have s: "lbrace \<in> set wrapped_summary_text" "rbrace \<in> set wrapped_summary_text"
    by (simp_all add: wrapped_summary_text_def)
  have s': "str_find wrapped_summary_text lbrace < str_rfind wrapped_summary_text rbrace"
    by (simp add: wrapped_summary_text_def summary_body_def ascii_def lbrace_def rbrace_def)
  have ss: "py_slice wrapped_summary_text (str_find wrapped_summary_text lbrace)
              (str_rfind wrapped_summary_text rbrace + 1) = lbrace # summary_body @ [rbrace]"
    by (simp add: wrapped_summary_text_def summary_body_def ascii_def lbrace_def rbrace_def
        py_slice_def)
  have q: "lbrace \<in> set wrapped_key_points_text" "rbrace \<in> set wrapped_key_points_text"
    by (simp_all add: wrapped_key_points_text_def)
  have q': "str_find wrapped_key_points_text lbrace < str_rfind wrapped_key_points_text rbrace"
    by (simp add: wrapped_key_points_text_def key_points_body_def ascii_def lbrace_def rbrace_def)
  have qs: "py_slice wrapped_key_points_text (str_find wrapped_key_points_text lbrace)
              (str_rfind wrapped_key_points_text rbrace + 1) = lbrace # key_points_body @ [rbrace]"
    by (simp add: wrapped_key_points_text_def key_points_body_def ascii_def lbrace_def rbrace_def
        py_slice_def)
  note t1 = brace_scan_decides_decoder_input [OF k, of prose_text sample_request prose_text "[]"]
  note t2 = brace_scan_decides_decoder_input [OF k, of reversed_text sample_request reversed_text "[]"]
  note t3 = brace_scan_decides_decoder_input
    [OF k, of wrapped_summary_text sample_request wrapped_summary_text "[]"]
  note t4 = brace_scan_decides_decoder_input
    [OF k, of wrapped_key_points_text sample_request wrapped_key_points_text "[]"]
  from t1 p have c1:
    "fst (summarize_text (mock_env prose_text) sample_request []) =
       HTTPException 400 summarize_malformed_detail"
    "fst (get_key_points (mock_env prose_text) sample_request []) =
       HTTPException 400 key_points_malformed_detail"
    "json_loads_args (snd (summarize_text (mock_env prose_text) sample_request [])) = []"
    by (simp_all add: g)
  from t2 r have c2:
    "fst (summarize_text (mock_env reversed_text) sample_request []) =
       HTTPException 400 summarize_malformed_detail"
    by (simp add: g)
  from t3 s s' obtain pre mid post where d:
    "wrapped_summary_text = pre @ lbrace # mid @ rbrace # post"
    "lbrace \<notin> set pre" "rbrace \<notin> set post"
    "json_loads_args (snd (summarize_text (mock_env wrapped_summary_text) sample_request [])) =
       [lbrace # mid @ [rbrace]]"
    by (auto simp: g)
  from brace_slice(3) [OF d(2) d(3) d(1)] ss d(4) have c3:
    "json_loads_args (snd (summarize_text (mock_env wrapped_summary_text) sample_request [])) =
       [lbrace # summary_body @ [rbrace]]"
    by simp
  from t4 q q' obtain pre' mid' post' where e:
    "wrapped_key_points_text = pre' @ lbrace # mid' @ rbrace # post'"
    "lbrace \<notin> set pre'" "rbrace \<notin> set post'"
    "json_loads_args (snd (get_key_points (mock_env wrapped_key_points_text) sample_request [])) =
       [lbrace # mid' @ [rbrace]]"
    by (auto simp: g)
  from brace_slice(3) [OF e(2) e(3) e(1)] qs e(4) have c4:
    "json_loads_args (snd (get_key_points (mock_env wrapped_key_points_text) sample_request [])) =
       [lbrace # key_points_body @ [rbrace]]"
    by simp
  from k g p r s s' q q' c1 c2 c3 c4 show ?thesis
    by blast
qed

text \<open>
  C5. When the braces are found and the decoder rejects the text between them with a
  \<open>JSONDecodeError\<close>, the handler raises the 400 error of an invalid JSON. Its detail is
  a fixed message, in which the rejected text does not occur; the rejected text goes to
  the console, after the decoder's own message.
\<close>

theorem invalid_json_is_logged_not_returned:
  assumes "GEMINI_API_KEY env \<noteq> []"
    and "lbrace \<notin> set pre" and "rbrace \<notin> set post"
    and "json_loads env (lbrace # mid @ [rbrace]) = Inl e"
    and "is_JSONDecodeError (exn_class e)"
  shows
    "(generate_content env (summarize_call (text request)) =
        Inr (pre @ lbrace # mid @ rbrace # post) \<longrightarrow>
      fst (summarize_text env request tr) = HTTPException 400 summarize_invalid_detail \<and>
      \<not> sublist (lbrace # mid @ [rbrace]) summarize_invalid_detail \<and>
      printed (snd (summarize_text env request tr)) =
        printed tr @
        [ascii ''Error al decodificar JSON de la IA: '' @ exn_str e,
         ascii ''Texto recibido de la IA: '' @ lbrace # mid @ [rbrace]]) \<and>
     (generate_content env (key_points_call (text request)) =
        Inr (pre @ lbrace # mid @ rbrace # post) \<longrightarrow>
      fst (get_key_points env request tr) = HTTPException 400 key_points_invalid_detail \<and>
      \<not> sublist (lbrace # mid @ [rbrace]) key_points_invalid_detail \<and>
      printed (snd (get_key_points env request tr)) =
        printed tr @
        [ascii ''Error al decodificar JSON de la IA para puntos clave: '' @ exn_str e,
         ascii ''Texto recibido de la IA para puntos clave: '' @ lbrace # mid @ [rbrace]])"
proof -
  have S: "fst (summarize_text env request tr) = HTTPException 400 summarize_invalid_detail \<and>
      \<not> sublist (lbrace # mid @ [rbrace]) summarize_invalid_detail \<and>
      printed (snd (summarize_text env request tr)) =
        printed tr @
        [ascii ''Error al decodificar JSON de la IA: '' @ exn_str e,
         ascii ''Texto recibido de la IA: '' @ lbrace # mid @ [rbrace]]"
    if g: "generate_content env (summarize_call (text request)) =
        Inr (pre @ lbrace # mid @ rbrace # post)"
    by (simp add: summarize_text_invalid [OF assms(1) g refl assms(2-5)] printed_append
        no_brace_no_sublist [OF summarize_invalid_detail_no_brace])
  have K: "fst (get_key_points env request tr) = HTTPException 400 key_points_invalid_detail \<and>
      \<not> sublist (lbrace # mid @ [rbrace]) key_points_invalid_detail \<and>
      printed (snd (get_key_points env request tr)) =
        printed tr @
        [ascii ''Error al decodificar JSON de la IA para puntos clave: '' @ exn_str e,
         ascii ''Texto recibido de la IA para puntos clave: '' @ lbrace # mid @ [rbrace]]"
    if g: "generate_content env (key_points_call (text request)) =
        Inr (pre @ lbrace # mid @ rbrace # post)"
    by (simp add: get_key_points_invalid [OF assms(1) g refl assms(2-5)] printed_append
        no_brace_no_sublist [OF key_points_invalid_detail_no_brace])
  from S K show ?thesis by blast
qed

theorem invalid_json_is_logged_not_returned_witness:
  "GEMINI_API_KEY (mock_env invalid_text) \<noteq> [] \<and>
   lbrace \<notin> set (ascii ''Respuesta: '') \<and> rbrace \<notin> set (ascii '' fin'') \<and>
   json_loads (mock_env invalid_text) (lbrace # ascii ''resumen: ninguno'' @ [rbrace]) =
     Inl (Exn JSONDecodeError (ascii ''Expecting property name enclosed in double quotes'')) \<and>
   is_JSONDecodeError
     (exn_class (Exn JSONDecodeError (ascii ''Expecting property name enclosed in double quotes''))) \<and>
   generate_content (mock_env invalid_text) (summarize_call (text sample_request)) =
     Inr (ascii ''Respuesta: '' @ lbrace # ascii ''resumen: ninguno'' @ rbrace # ascii '' fin'') \<and>
   generate_content (mock_env invalid_text) (key_points_call (text sample_request)) =
     Inr (ascii ''Respuesta: '' @ lbrace # ascii ''resumen: ninguno'' @ rbrace # ascii '' fin'') \<and>
   fst (summarize_text (mock_env invalid_text) sample_request []) =
     HTTPException 400 summarize_invalid_detail \<and>
   \<not> sublist (lbrace # ascii ''resumen: ninguno'' @ [rbrace]) summarize_invalid_detail \<and>
   printed (snd (summarize_text (mock_env invalid_text) sample_request [])) =
     [ascii ''Error al decodificar JSON de la IA: '' @
        ascii ''Expecting property name enclosed in double quotes'',
      ascii ''Texto recibido de la IA: '' @ lbrace # ascii ''resumen: ninguno'' @ [rbrace]] \<and>
   fst (get_key_points (mock_env invalid_text) sample_request []) =
     HTTPException 400 key_points_invalid_detail \<and>
   \<not> sublist (lbrace # ascii ''resumen: ninguno'' @ [rbrace]) key_points_invalid_detail \<and>
   printed (snd (get_key_points (mock_env invalid_text) sample_request [])) =
     [ascii ''Error al decodificar JSON de la IA para puntos clave: '' @
        ascii ''Expecting property name enclosed in double quotes'',
      ascii ''Texto recibido de la IA para puntos clave: '' @ lbrace # ascii ''resumen: ninguno'' @ [rbrace]]"
proof -
  let ?e = "Exn JSONDecodeError (ascii ''Expecting property name enclosed in double quotes'')"
  have 1: "GEMINI_API_KEY (mock_env invalid_text) \<noteq> []"
    by (rule mock_env_key)
  have 2: "lbrace \<notin> set (ascii ''Respuesta: '')"
    by (simp add: ascii_def lbrace_def)
  have 3: "rbrace \<notin> set (ascii '' fin'')"
    by (simp add: ascii_def rbrace_def)
  have 4: "json_loads (mock_env invalid_text) (lbrace # ascii ''resumen: ninguno'' @ [rbrace]) = Inl ?e"
    by (simp add: mock_env_def mock_json_loads_def ascii_def lbrace_def rbrace_def
        summary_body_def summary_extra_body_def summary_only_es_body_def key_points_body_def
        key_points_scalar_body_def key_points_extra_body_def)
  have 5: "is_JSONDecodeError (exn_class ?e)"
    by simp
  have 6: "generate_content (mock_env invalid_text) call =
     Inr (ascii ''Respuesta: '' @ lbrace # ascii ''resumen: ninguno'' @ rbrace # ascii '' fin'')" for call
    by (simp add: mock_env_generate invalid_text_def)
  from invalid_json_is_logged_not_returned [OF 1 2 3 4 5, of sample_request "[]"] 6
  have "fst (summarize_text (mock_env invalid_text) sample_request []) =
     HTTPException 400 summarize_invalid_detail \<and>
   \<not> sublist (lbrace # ascii ''resumen: ninguno'' @ [rbrace]) summarize_invalid_detail \<and>
   printed (snd (summarize_text (mock_env invalid_text) sample_request [])) =
     [ascii ''Error al decodificar JSON de la IA: '' @
        ascii ''Expecting property name enclosed in double quotes'',
      ascii ''Texto recibido de la IA: '' @ lbrace # ascii ''resumen: ninguno'' @ [rbrace]] \<and>
   fst (get_key_points (mock_env invalid_text) sample_request []) =
     HTTPException 400 key_points_invalid_detail \<and>
   \<not> sublist (lbrace # ascii ''resumen: ninguno'' @ [rbrace]) key_points_invalid_detail \<and>
   printed (snd (get_key_points (mock_env invalid_text) sample_request [])) =
     [ascii ''Error al decodificar JSON de la IA para puntos clave: '' @
        ascii ''Expecting property name enclosed in double quotes'',
      ascii ''Texto recibido de la IA para puntos clave: '' @ lbrace # ascii ''resumen: ninguno'' @ [rbrace]]"
    by simp
  with 1 2 3 4 5 6 show ?thesis by blast
qed

text \<open>
  C6. With an empty \<open>GEMINI_API_KEY\<close> both handlers raise the 400 error that the key is
  not configured, and they leave the trace as it was: the service is not called, nothing
  is decoded or printed, and no exception leaves the handler.
\<close>

theorem missing_key_rejected_before_any_call:
  assumes "GEMINI_API_KEY env = []"
  shows "summarize_text env request tr = (HTTPException 400 not_configured_detail, tr) \<and>
         get_key_points env request tr = (HTTPException 400 not_configured_detail, tr)"
  using assms
  by (simp add: summarize_text_def get_key_points_def summarize_try_unconfigured
      get_key_points_try_unconfigured)

theorem missing_key_rejected_before_any_call_witness:
  "GEMINI_API_KEY unconfigured_env = [] \<and>
   summarize_text unconfigured_env sample_request [] =
     (HTTPException 400 not_configured_detail, []) \<and>
   get_key_points unconfigured_env sample_request [] =
     (HTTPException 400 not_configured_detail, [])"
proof -
  have 1: "GEMINI_API_KEY unconfigured_env = []"
    by (simp add: unconfigured_env_def)
  from missing_key_rejected_before_any_call [OF 1, of sample_request "[]"] 1
  show ?thesis by blast
qed

text \<open>
  C7. When the call of the service raises an exception that is an \<^verbatim>\<open>Exception\<close> and no
  \<^verbatim>\<open>ValueError\<close>, the handler raises the 500 error with its fixed detail, whatever
  the text of the exception, which goes to the console only. The trace shows the one call of
  the service and no second one.
\<close>

theorem service_error_gives_500_after_one_call:
  assumes "GEMINI_API_KEY env \<noteq> []"
    and "is_Exception (exn_class e)" and "\<not> is_ValueError (exn_class e)"
  shows
    "(generate_content env (summarize_call (text request)) = Inl e \<longrightarrow>
        summarize_text env request tr =
          (HTTPException 500 summarize_internal_detail,
           tr @ [GenerateContent (summarize_call (text request)),
                 Print (ascii ''Error inesperado en summarize_text: '' @ exn_str e)])) \<and>
     (generate_content env (key_points_call (text request)) = Inl e \<longrightarrow>
        get_key_points env request tr =
          (HTTPException 500 key_points_internal_detail,
           tr @ [GenerateContent (key_points_call (text request)),
                 Print (ascii ''Error inesperado en get_key_points: '' @ exn_str e)]))"
  using assms
  by (simp add: summarize_text_def get_key_points_def summarize_try_raises
      get_key_points_try_raises)

theorem service_error_gives_500_after_one_call_witness:
  "GEMINI_API_KEY (failing_env (Exn Exception (ascii ''503 Service Unavailable''))) \<noteq> [] \<and>
   is_Exception (exn_class (Exn Exception (ascii ''503 Service Unavailable''))) \<and>
   \<not> is_ValueError (exn_class (Exn Exception (ascii ''503 Service Unavailable''))) \<and>
   generate_content (failing_env (Exn Exception (ascii ''503 Service Unavailable'')))
     (summarize_call (text sample_request)) =
     Inl (Exn Exception (ascii ''503 Service Unavailable'')) \<and>
   generate_content (failing_env (Exn Exception (ascii ''503 Service Unavailable'')))
     (key_points_call (text sample_request)) =
     Inl (Exn Exception (ascii ''503 Service Unavailable'')) \<and>
   summarize_text (failing_env (Exn Exception (ascii ''503 Service Unavailable''))) sample_request [] =
     (HTTPException 500 summarize_internal_detail,
      [GenerateContent (summarize_call (text sample_request)),
       Print (ascii ''Error inesperado en summarize_text: '' @ ascii ''503 Service Unavailable'')]) \<and>
   get_key_points (failing_env (Exn Exception (ascii ''503 Service Unavailable''))) sample_request [] =
     (HTTPException 500 key_points_internal_detail,
      [GenerateContent (key_points_call (text sample_request)),
       Print (ascii ''Error inesperado en get_key_points: '' @ ascii ''503 Service Unavailable'')])"
proof -
  let ?e = "Exn Exception (ascii ''503 Service Unavailable'')"
  have 1: "GEMINI_API_KEY (failing_env ?e) \<noteq> []"
    by (simp add: failing_env_def ascii_def)
  have 2: "is_Exception (exn_class ?e)" and 3: "\<not> is_ValueError (exn_class ?e)"
    by simp_all
  have 4: "generate_content (failing_env ?e) call = Inl ?e" for call
    by (simp add: failing_env_def)
  from service_error_gives_500_after_one_call [OF 1 2 3, of sample_request "[]"] 4
  have "summarize_text (failing_env ?e) sample_request [] =
     (HTTPException 500 summarize_internal_detail,
      [GenerateContent (summarize_call (text sample_request)),
       Print (ascii ''Error inesperado en summarize_text: '' @ ascii ''503 Service Unavailable'')]) \<and>
   get_key_points (failing_env ?e) sample_request [] =
     (HTTPException 500 key_points_internal_detail,
      [GenerateContent (key_points_call (text sample_request)),
       Print (ascii ''Error inesperado en get_key_points: '' @ ascii ''503 Service Unavailable'')])"
    by simp
  with 1 2 3 4 show ?thesis by blast
qed

text \<open>
  C8. Two runs of a handler on the same request, in which the service answers with the
  same text, raise or return the same response: the response does not depend on the
  trace so far, on the value of a configured key, or on what the service would answer to
  other calls. The decoder is the same in both runs.
\<close>

theorem response_determined_by_upstream_text:
  assumes "GEMINI_API_KEY env1 = [] \<longleftrightarrow> GEMINI_API_KEY env2 = []"
    and "json_loads env1 = json_loads env2"
  shows
    "(generate_content env1 (summarize_call (text request)) = Inr raw \<and>
      generate_content env2 (summarize_call (text request)) = Inr raw \<longrightarrow>
        fst (summarize_text env1 request tr1) = fst (summarize_text env2 request tr2)) \<and>
     (generate_content env1 (key_points_call (text request)) = Inr raw \<and>
      generate_content env2 (key_points_call (text request)) = Inr raw \<longrightarrow>
        fst (get_key_points env1 request tr1) = fst (get_key_points env2 request tr2))"
proof -
  have S: "fst (summarize_text env1 request tr1) = fst (summarize_text env2 request tr2)"
    if "generate_content env1 (summarize_call (text request)) = Inr raw"
      and "generate_content env2 (summarize_call (text request)) = Inr raw"
  proof -
    have "fst (summarize_text env1 request tr1) = fst (summarize_text env2 request tr1)"
      using assms that by (intro summarize_text_response_cong) simp_all
    also have "\<dots> = fst (summarize_text env2 request tr2)"
      by (rule summarize_text_response_trace_free)
    finally show ?thesis .
  qed
  have K: "fst (get_key_points env1 request tr1) = fst (get_key_points env2 request tr2)"
    if "generate_content env1 (key_points_call (text request)) = Inr raw"
      and "generate_content env2 (key_points_call (text request)) = Inr raw"
  proof -
    have "fst (get_key_points env1 request tr1) = fst (get_key_points env2 request tr1)"
      using assms that by (intro get_key_points_response_cong) simp_all
    also have "\<dots> = fst (get_key_points env2 request tr2)"
      by (rule get_key_points_response_trace_free)
    finally show ?thesis .
  qed
  from S K show ?thesis by blast
qed

theorem response_determined_by_upstream_text_witness:
  "(GEMINI_API_KEY (mock_env wrapped_summary_text) = [] \<longleftrightarrow>
    GEMINI_API_KEY (other_env wrapped_summary_text) = []) \<and>
   json_loads (mock_env wrapped_summary_text) = json_loads (other_env wrapped_summary_text) \<and>
   generate_content (mock_env wrapped_summary_text) (summarize_call (text sample_request)) =
     Inr wrapped_summary_text \<and>
   generate_content (other_env wrapped_summary_text) (summarize_call (text sample_request)) =
     Inr wrapped_summary_text \<and>
   generate_content (mock_env wrapped_summary_text) (key_points_call (text sample_request)) =
     Inr wrapped_summary_text \<and>
   generate_content (other_env wrapped_summary_text) (key_points_call (text sample_request)) =
     Inr wrapped_summary_text \<and>
   fst (summarize_text (mock_env wrapped_summary_text) sample_request []) =
     fst (summarize_text (other_env wrapped_summary_text) sample_request
            [Print (ascii ''an earlier request'')]) \<and>
   fst (get_key_points (mock_env wrapped_summary_text) sample_request []) =
     fst (get_key_points (other_env wrapped_summary_text) sample_request
            [Print (ascii ''an earlier request'')])"
proof -
  have 1: "GEMINI_API_KEY (mock_env wrapped_summary_text) = [] \<longleftrightarrow>
           GEMINI_API_KEY (other_env wrapped_summary_text) = []"
    by (simp add: mock_env_def other_env_def ascii_def)
  have 2: "json_loads (mock_env wrapped_summary_text) =
           json_loads (other_env wrapped_summary_text)"
    by (simp add: mock_env_def other_env_def)
  have 3: "generate_content (mock_env wrapped_summary_text) call = Inr wrapped_summary_text"
    for call
    by (rule mock_env_generate)
  have 4: "generate_content (other_env wrapped_summary_text) (summarize_call t) =
             Inr wrapped_summary_text"
    "generate_content (other_env wrapped_summary_text) (key_points_call t) =
             Inr wrapped_summary_text" for t
    by (simp_all add: other_env_def summarize_call_def key_points_call_def)
  from response_determined_by_upstream_text
    [OF 1 2, of sample_request wrapped_summary_text "[]" "[Print (ascii ''an earlier request'')]"]
    3 4
  have "fst (summarize_text (mock_env wrapped_summary_text) sample_request []) =
     fst (summarize_text (other_env wrapped_summary_text) sample_request
            [Print (ascii ''an earlier request'')]) \<and>
   fst (get_key_points (mock_env wrapped_summary_text) sample_request []) =
     fst (get_key_points (other_env wrapped_summary_text) sample_request
            [Print (ascii ''an earlier request'')])"
    by simp
  with 1 2 3 4 show ?thesis by blast
qed

text \<open>
  C9, as stated, fails: \<open>TextRequest\<close> declares \<^verbatim>\<open>text: str\<close> and nothing more, so the
  empty string is a text like any other. Both handlers process the request with the empty
  text: they call the service and return its object with status 200.
\<close>

theorem empty_text_is_processed:
  "text empty_request = [] \<and>
   summarize_text (mock_env wrapped_summary_text) empty_request [] =
     (Ok200 summary_obj,
      [GenerateContent (summarize_call []), JsonLoads (lbrace # summary_body @ [rbrace])]) \<and>
   get_key_points (mock_env wrapped_key_points_text) empty_request [] =
     (Ok200 key_points_obj,
      [GenerateContent (key_points_call []), JsonLoads (lbrace # key_points_body @ [rbrace])])"
proof -
  have t: "text empty_request = []"
    by (simp add: empty_request_def)
  have s1: "lbrace \<notin> set (ascii ''Claro: '')" and s2: "rbrace \<notin> set (ascii '' Listo.'')"
    by (simp_all add: ascii_def lbrace_def rbrace_def)
  have k1: "lbrace \<notin> set (ascii ''Aqui: '')" and k2: "rbrace \<notin> set (ascii '' fin'')"
    by (simp_all add: ascii_def lbrace_def rbrace_def)
  have js: "json_loads (mock_env raw) (lbrace # summary_body @ [rbrace]) = Inr summary_obj" for raw
    by (simp add: mock_env_def mock_json_loads_def)
  have jk: "json_loads (mock_env raw) (lbrace # key_points_body @ [rbrace]) = Inr key_points_obj"
    for raw
    by (simp add: mock_env_def mock_json_loads_def lbrace_def rbrace_def ascii_def
        summary_body_def summary_extra_body_def summary_only_es_body_def key_points_body_def)
  have cs: "contains_key summary_obj (ascii ''summary_es'')"
    "contains_key summary_obj (ascii ''summary_en'')"
    by (simp_all add: contains_key_def summary_obj_def ascii_def)
  have ck: "isinstance_list (dict_get key_points_obj (ascii ''key_points_es''))"
    "isinstance_list (dict_get key_points_obj (ascii ''key_points_en''))"
    by (simp_all add: dict_get_def key_points_obj_def ascii_def)
  have "summarize_try (mock_env wrapped_summary_text) empty_request [] =
     (Inr summary_obj,
      [GenerateContent (summarize_call []), JsonLoads (lbrace # summary_body @ [rbrace])])"
    using cs
    by (simp add: summarize_try_sliced
        [OF mock_env_key mock_env_generate wrapped_summary_text_def s1 s2] js t)
  then have S: "summarize_text (mock_env wrapped_summary_text) empty_request [] =
     (Ok200 summary_obj,
      [GenerateContent (summarize_call []), JsonLoads (lbrace # summary_body @ [rbrace])])"
    by (simp add: summarize_text_def)
  have "get_key_points_try (mock_env wrapped_key_points_text) empty_request [] =
     (Inr key_points_obj,
      [GenerateContent (key_points_call []), JsonLoads (lbrace # key_points_body @ [rbrace])])"
    using ck
    by (simp add: get_key_points_try_sliced
        [OF mock_env_key mock_env_generate wrapped_key_points_text_def k1 k2] jk t)
  then have K: "get_key_points (mock_env wrapped_key_points_text) empty_request [] =
     (Ok200 key_points_obj,
      [GenerateContent (key_points_call []), JsonLoads (lbrace # key_points_body @ [rbrace])])"
    by (simp add: get_key_points_def)
  from t S K show ?thesis by blast
qed

text \<open>
  C9, amended. The text of a request is a string, empty or not, on which the handlers put
  no condition: with the key configured, each handler calls the service exactly once, and
  the prompt of that call is the literal head, the text of the request as it is, and the
  literal tail.
\<close>

theorem request_text_is_unconstrained:
  assumes "GEMINI_API_KEY env \<noteq> []"
  shows "external_calls (snd (summarize_text env request tr)) =
           external_calls tr @ [summarize_call (text request)] \<and>
         prompt (summarize_call (text request)) =
           summarize_prompt_head @ text request @ summarize_prompt_tail \<and>
         external_calls (snd (get_key_points env request tr)) =
           external_calls tr @ [key_points_call (text request)] \<and>
         prompt (key_points_call (text request)) =
           key_points_prompt_head @ text request @ key_points_prompt_tail"
  using assms
  by (simp add: summarize_text_calls get_key_points_calls summarize_call_def
      key_points_call_def summarize_prompt_def key_points_prompt_def)

theorem request_text_is_unconstrained_witness:
  "GEMINI_API_KEY (mock_env prose_text) \<noteq> [] \<and> text empty_request = [] \<and>
   external_calls (snd (summarize_text (mock_env prose_text) empty_request [])) =
     [summarize_call []] \<and>
   prompt (summarize_call []) = summarize_prompt_head @ summarize_prompt_tail \<and>
   external_calls (snd (get_key_points (mock_env prose_text) empty_request [])) =
     [key_points_call []] \<and>
   prompt (key_points_call []) = key_points_prompt_head @ key_points_prompt_tail"
proof -
  have t: "text empty_request = []"
    by (simp add: empty_request_def)
  from request_text_is_unconstrained [OF mock_env_key, of prose_text empty_request "[]"] t
  have "external_calls (snd (summarize_text (mock_env prose_text) empty_request [])) =
     [summarize_call []] \<and>
   prompt (summarize_call []) = summarize_prompt_head @ summarize_prompt_tail \<and>
   external_calls (snd (get_key_points (mock_env prose_text) empty_request [])) =
     [key_points_call []] \<and>
   prompt (key_points_call []) = key_points_prompt_head @ key_points_prompt_tail"
    by simp
  with t mock_env_key [of prose_text] show ?thesis by blast
qed





end
